theory Spec2Isabelle
  imports Complex_Main "HOL-Library.Signed_Division"
begin

section \<open>Values of the tool-invocation layer\<close>

text \<open>
  The argument bag of a tool call is a Go \<^verbatim>\<open>map[string]interface{}\<close> filled by the
  JSON decoder of the tool-invocation layer. Decoding JSON into \<^verbatim>\<open>interface{}\<close>
  yields exactly: \<^verbatim>\<open>nil\<close>, \<^verbatim>\<open>bool\<close>, \<^verbatim>\<open>float64\<close> (every JSON number),
  \<^verbatim>\<open>string\<close>, \<^verbatim>\<open>[]interface{}\<close> and \<^verbatim>\<open>map[string]interface{}\<close>. A finite
  \<^verbatim>\<open>float64\<close> is modelled by the rational number it denotes (JSON has no NaN and no
  infinities). A lookup of an absent key is \<open>None\<close>; Go then yields the nil interface,
  on which every type assertion fails.
\<close>

datatype go_value =
    VNil
  | VBool bool
  | VFloat64 rat
  | VString string
  | VArray "go_value list"
  | VObject "(string \<times> go_value) list"

type_synonym arguments = "string \<rightharpoonup> go_value"

definition is_number :: "go_value \<Rightarrow> bool" where
  "is_number v = (case v of VFloat64 _ \<Rightarrow> True | _ \<Rightarrow> False)"

definition is_string :: "go_value \<Rightarrow> bool" where
  "is_string v = (case v of VString _ \<Rightarrow> True | _ \<Rightarrow> False)"

definition is_bool :: "go_value \<Rightarrow> bool" where
  "is_bool v = (case v of VBool _ \<Rightarrow> True | _ \<Rightarrow> False)"

section \<open>Errors\<close>

text \<open>
  Go errors as values. \<open>ErrorString\<close> is an error that only carries a message
  (\<^verbatim>\<open>errors.New\<close>, \<^verbatim>\<open>fmt.Errorf\<close> without \<^verbatim>\<open>%w\<close>, and the errors of the standard
  library: body reads, JSON, transport, time parsing). \<open>APIError\<close> is the repository's
  \<^verbatim>\<open>*APIError\<close>. \<open>Wrapped p e\<close> is \<^verbatim>\<open>fmt.Errorf("p: %w", e)\<close>; every wrapping
  \<^verbatim>\<open>Errorf\<close> of the repository has this shape.
\<close>

datatype error =
    ErrorString string
  | APIError int string
  | Wrapped string error

subsection \<open>Decimal rendering (\<^verbatim>\<open>%d\<close>)\<close>

definition digit_char :: "nat \<Rightarrow> char" where
  "digit_char d = ''0123456789'' ! d"

fun nat_decimal :: "nat \<Rightarrow> string" where
  "nat_decimal n =
     (if n < 10 then [digit_char n] else nat_decimal (n div 10) @ [digit_char (n mod 10)])"

declare nat_decimal.simps [simp del]

definition Sprintf_d :: "int \<Rightarrow> string" where
  "Sprintf_d i = (if i < 0 then CHR ''-'' # nat_decimal (nat (- i)) else nat_decimal (nat i))"

text \<open>\<^verbatim>\<open>func (e *APIError) Error() string\<close> and the \<^verbatim>\<open>Error()\<close> of the other errors.\<close>

definition APIError_Error :: "int \<Rightarrow> string \<Rightarrow> string" where
  "APIError_Error status body = ''API error (status '' @ Sprintf_d status @ ''): '' @ body"

fun Error :: "error \<Rightarrow> string" where
  "Error (ErrorString s) = s"
| "Error (APIError status body) = APIError_Error status body"
| "Error (Wrapped p e) = p @ '': '' @ Error e"

text \<open>
  \<^verbatim>\<open>errors.As(err, &apiErr)\<close> with \<^verbatim>\<open>apiErr\<close> of type \<^verbatim>\<open>*APIError\<close>: the first
  \<^verbatim>\<open>*APIError\<close> on the chain of wrapped errors, if any.
\<close>

fun errors_As_APIError :: "error \<Rightarrow> (int \<times> string) option" where
  "errors_As_APIError (ErrorString s) = None"
| "errors_As_APIError (APIError status body) = Some (status, body)"
| "errors_As_APIError (Wrapped p e) = errors_As_APIError e"

section \<open>Parameter extraction and duration formatting\<close>

text \<open>
  The conversion \<^verbatim>\<open>int(val)\<close> of a \<^verbatim>\<open>float64\<close> discards the fraction (truncation
  towards zero). Go's \<^verbatim>\<open>int\<close> has 64 bits on the platforms the server is built for;
  when the truncated value does not fit, the language leaves the result to the
  implementation, which is the parameter \<open>impl\<close> here.
\<close>

definition trunc_toward_zero :: "rat \<Rightarrow> int" where
  "trunc_toward_zero x = (if 0 \<le> x then \<lfloor>x\<rfloor> else \<lceil>x\<rceil>)"

definition fits_int :: "int \<Rightarrow> bool" where
  "fits_int t = (- (2 ^ 63) \<le> t \<and> t < 2 ^ 63)"

definition int_of_float64 :: "(rat \<Rightarrow> int) \<Rightarrow> rat \<Rightarrow> int" where
  "int_of_float64 impl x =
     (let t = trunc_toward_zero x in if fits_int t then t else impl x)"

text \<open>
  One such implementation: on amd64 the conversion instruction answers a value out of
  range with the least \<^verbatim>\<open>int\<close>.
\<close>

definition least_int_on_overflow :: "rat \<Rightarrow> int" where
  "least_int_on_overflow x = - (2 ^ 63)"

definition getRequiredNumber :: "(rat \<Rightarrow> int) \<Rightarrow> arguments \<Rightarrow> string \<Rightarrow> error + int" where
  "getRequiredNumber impl params key =
     (case params key of
        Some (VFloat64 val) \<Rightarrow> Inr (int_of_float64 impl val)
      | _ \<Rightarrow> Inl (ErrorString (key @ '' must be a number'')))"

definition getOptionalNumber :: "(rat \<Rightarrow> int) \<Rightarrow> arguments \<Rightarrow> string \<Rightarrow> int option" where
  "getOptionalNumber impl params key =
     (case params key of
        Some (VFloat64 val) \<Rightarrow> Some (int_of_float64 impl val)
      | _ \<Rightarrow> None)"

definition getRequiredString :: "arguments \<Rightarrow> string \<Rightarrow> error + string" where
  "getRequiredString params key =
     (case params key of
        Some (VString val) \<Rightarrow>
          (if val = [] then Inl (ErrorString (key @ '' must be a non-empty string''))
           else Inr val)
      | _ \<Rightarrow> Inl (ErrorString (key @ '' must be a non-empty string'')))"

definition getOptionalString :: "arguments \<Rightarrow> string \<Rightarrow> string" where
  "getOptionalString params key =
     (case params key of
        Some (VString val) \<Rightarrow> val
      | _ \<Rightarrow> [])"

text \<open>
  \<^verbatim>\<open>formatDuration\<close>. Go's \<^verbatim>\<open>/\<close> and \<^verbatim>\<open>%\<close> on integers truncate towards zero:
  \<open>sdiv\<close> and \<open>smod\<close>.
\<close>

definition formatDuration :: "int \<Rightarrow> string" where
  "formatDuration seconds =
     (if seconds < 0 then ''[running]''
      else
        let hours = seconds sdiv 3600;
            minutes = (seconds smod 3600) sdiv 60;
            secs = seconds smod 60
        in if hours > 0 then
             ''['' @ Sprintf_d hours @ ''h '' @ Sprintf_d minutes @ ''m '' @ Sprintf_d secs @ ''s]''
           else if minutes > 0 then
             ''['' @ Sprintf_d minutes @ ''m '' @ Sprintf_d secs @ ''s]''
           else ''['' @ Sprintf_d secs @ ''s]'')"

text \<open>
  The duration format in the words of the specification: the components are taken by
  integer division of the non-negative number of seconds by 3600 and 60; the hour
  component is left out when it is zero, the hour and the minute component when both
  are zero; the seconds are always there.
\<close>

definition formatDuration_spec :: "int \<Rightarrow> string" where
  "formatDuration_spec s =
     (if s < 0 then ''[running]''
      else
        let n = nat s; h = n div 3600; m = (n mod 3600) div 60; sec = n mod 60
        in ''['' @ (if h = 0 then [] else nat_decimal h @ ''h '')
               @ (if h = 0 \<and> m = 0 then [] else nat_decimal m @ ''m '')
               @ nat_decimal sec @ ''s]'')"


section \<open>Entities\<close>

text \<open>
  The records of \<^verbatim>\<open>types.go\<close>. A \<^verbatim>\<open>time.Time\<close> is an instant, here a number of
  nanoseconds counted from the zero time; a pointer-typed optional field is an
  \<open>option\<close>; a nil slice is the empty list. \<^verbatim>\<open>BaseEntity\<close> is embedded in
  \<^verbatim>\<open>TimeEntry\<close> and \<^verbatim>\<open>Project\<close>, which extend it. Field names that two Go structs
  share carry the struct's name here (\<open>User_ID\<close>, \<open>Request_Description\<close>).
\<close>

type_synonym Time = int

record UserInfo =
  User_ID :: int
  Email :: string
  Fullname :: string
  DefaultWorkspaceID :: int

record BaseEntity =
  ID :: int
  WorkspaceID :: int
  At :: Time

record TimeEntry = BaseEntity +
  ProjectID :: "int option"
  Description :: string
  Start :: Time
  Stop :: "Time option"
  Duration :: int
  Tags :: "string list"
  TagIDs :: "int list"

record Project = BaseEntity +
  Name :: string
  Active :: bool
  Color :: string
  ClientID :: "int option"

record TimeEntryRequest =
  Request_Description :: string
  Request_Start :: Time
  Request_Duration :: int
  Request_ProjectID :: "int option"
  Request_Tags :: "string list"
  CreatedWith :: string

text \<open>The zero values of the payload shapes (\<^verbatim>\<open>var result T\<close>).\<close>

definition zero_UserInfo :: UserInfo where
  "zero_UserInfo = \<lparr>User_ID = 0, Email = [], Fullname = [], DefaultWorkspaceID = 0\<rparr>"

definition zero_TimeEntry :: TimeEntry where
  "zero_TimeEntry =
     \<lparr>ID = 0, WorkspaceID = 0, At = 0, ProjectID = None, Description = [], Start = 0,
      Stop = None, Duration = 0, Tags = [], TagIDs = []\<rparr>"

definition zero_Project :: Project where
  "zero_Project =
     \<lparr>ID = 0, WorkspaceID = 0, At = 0, Name = [], Active = False, Color = [],
      ClientID = None\<rparr>"

text \<open>
  The values \<^verbatim>\<open>handleCreateProject\<close> stores in its outgoing
  \<^verbatim>\<open>map[string]interface{}\<close>: a string, a bool or an \<^verbatim>\<open>int\<close>.
\<close>

datatype payload_value = PString string | PBool bool | PInt int

section \<open>The HTTP exchange\<close>

text \<open>
  A response is its status code and its body, a reader that yields the raw bytes or
  fails while being read (\<^verbatim>\<open>io.ReadAll\<close>). A request is what \<^verbatim>\<open>makeRequest\<close> puts
  together: method, URL, optional body, the content type header and the basic auth pair.
\<close>

datatype body_reader = Readable string | Broken string

record response =
  StatusCode :: int
  Body :: body_reader

record request =
  Method :: string
  URL :: string
  Payload :: "string option"
  Content_Type :: string
  BasicAuth :: "string \<times> string"

record TogglClient =
  APIToken :: string

text \<open>
  What lies outside the repository is a parameter of the model, collected in one record:
  the validation of \<^verbatim>\<open>http.NewRequestWithContext\<close> (\<open>Some\<close> message when it refuses
  the method or the URL), the round trip \<^verbatim>\<open>client.Do\<close> (a transport failure, which
  includes cancellation and timeout, or a response), the clock, the text of
  \<^verbatim>\<open>time.Since(t).Round(time.Second)\<close> under \<^verbatim>\<open>%s\<close>, the result of an out-of-range
  \<^verbatim>\<open>int(float64)\<close> conversion, and \<^verbatim>\<open>json.Marshal\<close> and \<^verbatim>\<open>json.Unmarshal\<close> at the
  types the handlers use. \<^verbatim>\<open>json.Unmarshal(body, &result)\<close> takes the body and the
  current content of \<^verbatim>\<open>result\<close> and gives the content it leaves there together with
  its error, if any. The debug log record that \<^verbatim>\<open>makeRequest\<close> writes is not modelled.
\<close>

record world =
  NewRequest_refuses :: "string \<Rightarrow> string \<Rightarrow> string option"
  Do :: "request \<Rightarrow> string + response"
  Now :: Time
  Since_Round_String :: "Time \<Rightarrow> string"
  Float64_overflow :: "rat \<Rightarrow> int"
  Marshal_TimeEntryRequest :: "TimeEntryRequest \<Rightarrow> string + string"
  Marshal_project :: "(string \<rightharpoonup> payload_value) \<Rightarrow> string + string"
  Unmarshal_UserInfo :: "string \<Rightarrow> UserInfo \<Rightarrow> UserInfo \<times> string option"
  Unmarshal_TimeEntry :: "string \<Rightarrow> TimeEntry \<Rightarrow> TimeEntry \<times> string option"
  Unmarshal_TimeEntries :: "string \<Rightarrow> TimeEntry list \<Rightarrow> TimeEntry list \<times> string option"
  Unmarshal_Project :: "string \<Rightarrow> Project \<Rightarrow> Project \<times> string option"
  Unmarshal_Projects :: "string \<Rightarrow> Project list \<Rightarrow> Project list \<times> string option"

definition togglAPIBase :: string where
  "togglAPIBase = ''https://api.track.toggl.com/api/v9''"

text \<open>
  \<^verbatim>\<open>makeRequest\<close>. The result carries the requests handed to the transport (none when
  the request could not be constructed).
\<close>

definition makeRequest ::
  "world \<Rightarrow> TogglClient \<Rightarrow> string \<Rightarrow> string \<Rightarrow> string option \<Rightarrow> request list \<times> (error + response)"
where
  "makeRequest w c method endpoint body =
     (case NewRequest_refuses w method (togglAPIBase @ endpoint) of
        Some msg \<Rightarrow> ([], Inl (Wrapped ''creating request'' (ErrorString msg)))
      | None \<Rightarrow>
          (let req = \<lparr>Method = method, URL = togglAPIBase @ endpoint, Payload = body,
                      Content_Type = ''application/json'',
                      BasicAuth = (APIToken c, ''api_token'')\<rparr>
           in case Do w req of
                Inl msg \<Rightarrow> ([req], Inl (Wrapped ''executing request'' (ErrorString msg)))
              | Inr resp \<Rightarrow> ([req], Inr resp)))"

text \<open>
  \<^verbatim>\<open>decodeResponse[T]\<close>, with \<^verbatim>\<open>json.Unmarshal\<close> at type \<^verbatim>\<open>T\<close> and the zero value
  of \<^verbatim>\<open>T\<close> as parameters. Go returns both components of the pair in every case; the
  value returned beside an error is whatever \<^verbatim>\<open>result\<close> holds at that point.
\<close>

definition decodeResponse ::
  "(string \<Rightarrow> 'a \<Rightarrow> 'a \<times> string option) \<Rightarrow> 'a \<Rightarrow> response \<Rightarrow> 'a \<times> error option"
where
  "decodeResponse unmarshal zero resp =
     (let result = zero
      in case Body resp of
           Broken msg \<Rightarrow> (result, Some (Wrapped ''reading response body'' (ErrorString msg)))
         | Readable body \<Rightarrow>
             if StatusCode resp < 200 \<or> StatusCode resp \<ge> 300
             then (result, Some (APIError (StatusCode resp) body))
             else (case unmarshal body result of
                     (result', Some msg) \<Rightarrow>
                       (result', Some (Wrapped ''decoding response'' (ErrorString msg)))
                   | (result', None) \<Rightarrow> (result', None)))"


section \<open>Dates and query strings\<close>

text \<open>
  The handlers use the standard library for calendar dates: \<^verbatim>\<open>time.Parse\<close> with the
  layout \<^verbatim>\<open>"2006-01-02"\<close>, \<^verbatim>\<open>AddDate(0, 0, 1)\<close> and \<^verbatim>\<open>Format\<close> with the same
  layout. With this layout \<^verbatim>\<open>time.Parse\<close> reads four digits, a hyphen, two digits, a
  hyphen and two digits, refuses any text after them, a month outside 1..12 and a day
  outside the month (\<^verbatim>\<open>daysIn\<close>). The instant it returns is midnight UTC of that day,
  here the triple of year, month and day.
\<close>

type_synonym civil_date = "int \<times> int \<times> int"

definition isDigit :: "char \<Rightarrow> bool" where
  "isDigit c = (48 \<le> (of_char c :: nat) \<and> (of_char c :: nat) \<le> 57)"

definition digit_value :: "char \<Rightarrow> int" where
  "digit_value c = int (of_char c) - 48"

definition isLeap :: "int \<Rightarrow> bool" where
  "isLeap year = (year mod 4 = 0 \<and> (year mod 100 \<noteq> 0 \<or> year mod 400 = 0))"

definition daysIn :: "int \<Rightarrow> int \<Rightarrow> int" where
  "daysIn m year =
     (if m = 2 then (if isLeap year then 29 else 28)
      else if m = 4 \<or> m = 6 \<or> m = 9 \<or> m = 11 then 30
      else 31)"

text \<open>
  The \<^verbatim>\<open>*time.ParseError\<close>, with its message abridged: the library quotes value and
  layout and adds which layout element did not match.
\<close>

definition time_ParseError :: "string \<Rightarrow> error" where
  "time_ParseError v = ErrorString (''parsing time '' @ v @ '' as 2006-01-02'')"

definition time_Parse_date :: "string \<Rightarrow> error + civil_date" where
  "time_Parse_date v =
     (case v of
        y1 # y2 # y3 # y4 # s1 # m1 # m2 # s2 # d1 # d2 # rest \<Rightarrow>
          if isDigit y1 \<and> isDigit y2 \<and> isDigit y3 \<and> isDigit y4 \<and> s1 = CHR ''-''
             \<and> isDigit m1 \<and> isDigit m2 \<and> s2 = CHR ''-''
             \<and> isDigit d1 \<and> isDigit d2 \<and> rest = []
          then
            (let year = 1000 * digit_value y1 + 100 * digit_value y2
                        + 10 * digit_value y3 + digit_value y4;
                 month = 10 * digit_value m1 + digit_value m2;
                 day = 10 * digit_value d1 + digit_value d2
             in if month \<le> 0 \<or> 12 < month then Inl (time_ParseError v)
                else if day < 1 \<or> day > daysIn month year then Inl (time_ParseError v)
                else Inr (year, month, day))
          else Inl (time_ParseError v)
      | _ \<Rightarrow> Inl (time_ParseError v))"

text \<open>
  \<^verbatim>\<open>t.AddDate(0, 0, 1)\<close> on a valid date: the day after, the overflow of the day
  carried into the month and of the month into the year, as \<^verbatim>\<open>time.Date\<close> normalises.
\<close>

definition AddDate_one_day :: "civil_date \<Rightarrow> civil_date" where
  "AddDate_one_day t =
     (case t of (year, month, day) \<Rightarrow>
        if day + 1 \<le> daysIn month year then (year, month, day + 1)
        else if month < 12 then (year, month + 1, 1)
        else (year + 1, 1, 1))"

text \<open>
  \<^verbatim>\<open>Format("2006-01-02")\<close>: the year zero-padded to at least four digits, month and day
  to two.
\<close>

definition zero_pad :: "nat \<Rightarrow> int \<Rightarrow> string" where
  "zero_pad width x =
     (if x < 0 then CHR ''-'' # replicate (width - length (nat_decimal (nat (- x)))) CHR ''0''
                     @ nat_decimal (nat (- x))
      else replicate (width - length (nat_decimal (nat x))) CHR ''0'' @ nat_decimal (nat x))"

definition Format_date :: "civil_date \<Rightarrow> string" where
  "Format_date t =
     (case t of (year, month, day) \<Rightarrow>
        zero_pad 4 year @ ''-'' @ zero_pad 2 month @ ''-'' @ zero_pad 2 day)"

text \<open>
  \<^verbatim>\<open>url.Values\<close> as the handlers use it: \<^verbatim>\<open>Set\<close> gives a key its one value,
  \<^verbatim>\<open>len\<close> counts the keys, \<^verbatim>\<open>Encode\<close> writes \<^verbatim>\<open>key=value\<close> pairs joined by
  \<^verbatim>\<open>&\<close>, sorted by key (byte order), both sides query-escaped.
\<close>

type_synonym url_Values = "(string \<times> string) list"

fun Values_Set :: "url_Values \<Rightarrow> string \<Rightarrow> string \<Rightarrow> url_Values" where
  "Values_Set [] k v = [(k, v)]"
| "Values_Set ((k', v') # ps) k v =
     (if k' = k then (k, v) # ps else (k', v') # Values_Set ps k v)"

fun string_le :: "string \<Rightarrow> string \<Rightarrow> bool" where
  "string_le [] ys = True"
| "string_le (x # xs) [] = False"
| "string_le (x # xs) (y # ys) =
     ((of_char x :: nat) < of_char y \<or> (x = y \<and> string_le xs ys))"

fun insert_by_key :: "string \<times> string \<Rightarrow> url_Values \<Rightarrow> url_Values" where
  "insert_by_key p [] = [p]"
| "insert_by_key p (q # qs) =
     (if string_le (fst p) (fst q) then p # q # qs else q # insert_by_key p qs)"

definition sort_by_key :: "url_Values \<Rightarrow> url_Values" where
  "sort_by_key ps = foldr insert_by_key ps []"

definition unreserved :: "char \<Rightarrow> bool" where
  "unreserved c =
     (let n = (of_char c :: nat)
      in (97 \<le> n \<and> n \<le> 122) \<or> (65 \<le> n \<and> n \<le> 90) \<or> (48 \<le> n \<and> n \<le> 57)
         \<or> c = CHR ''-'' \<or> c = CHR ''_'' \<or> c = CHR ''.'' \<or> c = CHR ''~'')"

definition upperhex :: "nat \<Rightarrow> char" where
  "upperhex d = ''0123456789ABCDEF'' ! d"

fun QueryEscape :: "string \<Rightarrow> string" where
  "QueryEscape [] = []"
| "QueryEscape (c # cs) =
     (if unreserved c then c # QueryEscape cs
      else if c = CHR '' '' then CHR ''+'' # QueryEscape cs
      else CHR ''%'' # upperhex ((of_char c :: nat) div 16) # upperhex ((of_char c :: nat) mod 16)
             # QueryEscape cs)"

fun join_pairs :: "url_Values \<Rightarrow> string" where
  "join_pairs [] = []"
| "join_pairs [(k, v)] = QueryEscape k @ ''='' @ QueryEscape v"
| "join_pairs ((k, v) # p # ps) = QueryEscape k @ ''='' @ QueryEscape v @ ''&'' @ join_pairs (p # ps)"

definition Values_Encode :: "url_Values \<Rightarrow> string" where
  "Values_Encode ps = join_pairs (sort_by_key ps)"

definition FormatBool :: "bool \<Rightarrow> string" where
  "FormatBool b = (if b then ''true'' else ''false'')"

section \<open>Tool results\<close>

text \<open>
  The result object of a tool call: its text content and its error flag.
  \<^verbatim>\<open>mcp.NewToolResultText\<close> leaves the flag unset, \<^verbatim>\<open>mcp.NewToolResultError\<close> sets it.
  A handler returns either a hard error (\<open>Inl\<close>) or such a result (\<open>Inr\<close>), here next
  to the requests it handed to the transport, in order.
\<close>

record CallToolResult =
  Text :: string
  IsError :: bool

definition NewToolResultText :: "string \<Rightarrow> CallToolResult" where
  "NewToolResultText t = \<lparr>Text = t, IsError = False\<rparr>"

definition NewToolResultError :: "string \<Rightarrow> CallToolResult" where
  "NewToolResultError t = \<lparr>Text = t, IsError = True\<rparr>"

type_synonym handler_result = "request list \<times> (error + CallToolResult)"


section \<open>Tool handlers\<close>

text \<open>
  Each handler takes the world, the client and the argument map of the call.
  \<^verbatim>\<open>defer resp.Body.Close()\<close> and \<^verbatim>\<open>resp.Body.Close()\<close> release the connection and
  have no part in the result.
\<close>

definition handleTestConnection :: "world \<Rightarrow> TogglClient \<Rightarrow> arguments \<Rightarrow> handler_result" where
  "handleTestConnection w client args =
     (case makeRequest w client ''GET'' ''/me'' None of
        (sent, Inl err) \<Rightarrow> (sent, Inl (Wrapped ''connecting to Toggl API'' err))
      | (sent, Inr resp) \<Rightarrow>
          (case decodeResponse (Unmarshal_UserInfo w) zero_UserInfo resp of
             (user, Some err) \<Rightarrow>
               (case errors_As_APIError err of
                  Some (status, body) \<Rightarrow>
                    (sent, Inr (NewToolResultError
                       (''Authentication failed: '' @ APIError_Error status body)))
                | None \<Rightarrow> (sent, Inl (Wrapped ''parsing user info'' err)))
           | (user, None) \<Rightarrow>
               (sent, Inr (NewToolResultText
                  ([CHR 0xE2, CHR 0x9C, CHR 0x85] @ '' Authentication successful!\<newline>User: ''
                   @ Fullname user @ ''\<newline>Email: '' @ Email user
                   @ ''\<newline>Default Workspace ID: '' @ Sprintf_d (DefaultWorkspaceID user))))))"

definition handleStartTimeEntry :: "world \<Rightarrow> TogglClient \<Rightarrow> arguments \<Rightarrow> handler_result" where
  "handleStartTimeEntry w client args =
     (case getRequiredString args ''description'' of
        Inl err \<Rightarrow> ([], Inl (Wrapped ''invalid description'' err))
      | Inr description \<Rightarrow>
     (case getRequiredNumber (Float64_overflow w) args ''workspace_id'' of
        Inl err \<Rightarrow> ([], Inl (Wrapped ''invalid workspace_id'' err))
      | Inr workspaceID \<Rightarrow>
     (let entry = \<lparr>Request_Description = description,
                    Request_Start = Now w,
                    Request_Duration = - 1,
                    Request_ProjectID = getOptionalNumber (Float64_overflow w) args ''project_id'',
                    Request_Tags = [],
                    CreatedWith = ''toggl-mcp''\<rparr>
      in case Marshal_TimeEntryRequest w entry of
           Inl msg \<Rightarrow> ([], Inl (Wrapped ''marshaling request'' (ErrorString msg)))
         | Inr payload \<Rightarrow>
     (case makeRequest w client ''POST''
             (''/workspaces/'' @ Sprintf_d workspaceID @ ''/time_entries'') (Some payload) of
        (sent, Inl err) \<Rightarrow> (sent, Inl (Wrapped ''starting time entry'' err))
      | (sent, Inr resp) \<Rightarrow>
          (case decodeResponse (Unmarshal_TimeEntry w) zero_TimeEntry resp of
             (result, Some err) \<Rightarrow>
               (case errors_As_APIError err of
                  Some (status, body) \<Rightarrow>
                    (sent, Inr (NewToolResultError
                       (''Failed to start time entry: '' @ APIError_Error status body)))
                | None \<Rightarrow> (sent, Inl (Wrapped ''decoding response'' err)))
           | (result, None) \<Rightarrow>
               (sent, Inr (NewToolResultText
                  (''Started time entry: '' @ Description result
                   @ '' (ID: '' @ Sprintf_d (ID result) @ '')''))))))))"

definition handleStopTimeEntry :: "world \<Rightarrow> TogglClient \<Rightarrow> arguments \<Rightarrow> handler_result" where
  "handleStopTimeEntry w client args =
     (case getRequiredNumber (Float64_overflow w) args ''workspace_id'' of
        Inl err \<Rightarrow> ([], Inl (Wrapped ''invalid workspace_id'' err))
      | Inr workspaceID \<Rightarrow>
     (case makeRequest w client ''GET'' ''/me/time_entries/current'' None of
        (sent, Inl err) \<Rightarrow> (sent, Inl (Wrapped ''getting current time entry'' err))
      | (sent, Inr resp) \<Rightarrow>
          if StatusCode resp = 404
          then (sent, Inr (NewToolResultText ''No running time entry found''))
          else
     (case decodeResponse (Unmarshal_TimeEntry w) zero_TimeEntry resp of
        (current, Some err) \<Rightarrow> (sent, Inl (Wrapped ''parsing current entry'' err))
      | (current, None) \<Rightarrow>
     (case makeRequest w client ''PATCH''
             (''/workspaces/'' @ Sprintf_d workspaceID @ ''/time_entries/''
              @ Sprintf_d (ID current) @ ''/stop'') None of
        (sent2, Inl err) \<Rightarrow> (sent @ sent2, Inl (Wrapped ''stopping time entry'' err))
      | (sent2, Inr stopResp) \<Rightarrow>
          (case decodeResponse (Unmarshal_TimeEntry w) zero_TimeEntry stopResp of
             (stopped, Some err) \<Rightarrow>
               (case errors_As_APIError err of
                  Some (status, body) \<Rightarrow>
                    (sent @ sent2, Inr (NewToolResultError
                       (''Failed to stop time entry: '' @ APIError_Error status body)))
                | None \<Rightarrow> (sent @ sent2, Inl (Wrapped ''decoding stop response'' err)))
           | (stopped, None) \<Rightarrow>
               (sent @ sent2, Inr (NewToolResultText
                  (''Stopped time entry: '' @ Description current
                   @ '' (ID: '' @ Sprintf_d (ID current) @ '')''))))))))"

definition handleGetCurrentTimeEntry :: "world \<Rightarrow> TogglClient \<Rightarrow> arguments \<Rightarrow> handler_result" where
  "handleGetCurrentTimeEntry w client args =
     (case makeRequest w client ''GET'' ''/me/time_entries/current'' None of
        (sent, Inl err) \<Rightarrow> (sent, Inl (Wrapped ''getting current time entry'' err))
      | (sent, Inr resp) \<Rightarrow>
          if StatusCode resp = 404
          then (sent, Inr (NewToolResultText ''No running time entry found''))
          else
     (case decodeResponse (Unmarshal_TimeEntry w) zero_TimeEntry resp of
        (current, Some err) \<Rightarrow>
          (case errors_As_APIError err of
             Some (status, body) \<Rightarrow>
               (sent, Inr (NewToolResultError
                  (''Failed to get current entry: '' @ APIError_Error status body)))
           | None \<Rightarrow> (sent, Inl (Wrapped ''parsing response'' err)))
      | (current, None) \<Rightarrow>
          (sent, Inr (NewToolResultText
             (''Current time entry: '' @ Description current
              @ '' (ID: '' @ Sprintf_d (ID current)
              @ '', Running for: '' @ Since_Round_String w (Start current) @ '')'')))))"

text \<open>
  The text that \<^verbatim>\<open>handleGetTimeEntries\<close> builds in its \<^verbatim>\<open>strings.Builder\<close>: the
  block written when the start and the end date are the same, the line of one entry,
  and the whole text.
\<close>

definition same_date_warning :: "string \<Rightarrow> string" where
  "same_date_warning startDate =
     ''\<newline>'' @ [CHR 0xE2, CHR 0x9A, CHR 0xA0, CHR 0xEF, CHR 0xB8, CHR 0x8F]
       @ ''  LIKELY ISSUE: You used the same date for start_date and end_date!\<newline>''
     @ ''To get entries for '' @ startDate @ '', use:\<newline>''
     @ ''  start_date: '' @ startDate @ ''\<newline>''
     @ (case time_Parse_date startDate of
          Inr date \<Rightarrow>
            (let nextDay = Format_date (AddDate_one_day date)
             in ''  end_date: '' @ nextDay @ ''\<newline>''
                @ ''OR use the 'get_time_entries_for_day' tool with date: '' @ startDate
                @ ''\<newline>'')
        | Inl err \<Rightarrow> [])"

definition entry_line :: "TimeEntry \<Rightarrow> string" where
  "entry_line entry =
     (let duration = formatDuration (Duration entry);
          projectInfo = (case ProjectID entry of
                           Some pid \<Rightarrow> '' (Project ID: '' @ Sprintf_d pid @ '')''
                         | None \<Rightarrow> [])
      in ''- '' @ Description entry @ '' (ID: '' @ Sprintf_d (ID entry) @ '')''
         @ projectInfo @ '' '' @ duration @ ''\<newline>'')"

definition time_entries_text :: "string \<Rightarrow> string \<Rightarrow> TimeEntry list \<Rightarrow> string" where
  "time_entries_text startDate endDate entries =
     ''Found '' @ Sprintf_d (int (length entries)) @ '' time entries:\<newline>''
     @ (if length entries = 0 then
          ''\<newline>No time entries found. This could be because:\<newline>''
          @ ''- No time entries exist in the specified date range\<newline>''
          @ ''- You need to specify a date range (start_date, end_date)\<newline>''
          @ ''- The default query only returns recent entries\<newline>''
          @ (if startDate \<noteq> [] \<and> endDate \<noteq> [] \<and> startDate = endDate
             then same_date_warning startDate else [])
        else concat (map entry_line entries))"

text \<open>
  The first part of \<^verbatim>\<open>handleGetTimeEntries\<close>: the two optional dates are checked and
  put into the query; the result is the endpoint, or the hard error.
\<close>

definition time_entries_endpoint :: "string \<Rightarrow> string \<Rightarrow> error + string" where
  "time_entries_endpoint startDate endDate =
     (let endpoint = ''/me/time_entries''; params = []
      in case (if startDate \<noteq> [] then
                 (case time_Parse_date startDate of
                    Inl err \<Rightarrow> Inl (Wrapped ''invalid start_date format (use YYYY-MM-DD)'' err)
                  | Inr t \<Rightarrow> Inr (Values_Set params ''start_date'' startDate))
               else Inr params) of
           Inl err \<Rightarrow> Inl err
         | Inr params \<Rightarrow>
             (case (if endDate \<noteq> [] then
                      (case time_Parse_date endDate of
                         Inl err \<Rightarrow> Inl (Wrapped ''invalid end_date format (use YYYY-MM-DD)'' err)
                       | Inr t \<Rightarrow> Inr (Values_Set params ''end_date'' endDate))
                    else Inr params) of
                Inl err \<Rightarrow> Inl err
              | Inr params \<Rightarrow>
                  Inr (if length params > 0 then endpoint @ ''?'' @ Values_Encode params
                       else endpoint)))"

definition handleGetTimeEntries :: "world \<Rightarrow> TogglClient \<Rightarrow> arguments \<Rightarrow> handler_result" where
  "handleGetTimeEntries w client args =
     (let startDate = getOptionalString args ''start_date'';
          endDate = getOptionalString args ''end_date''
      in case time_entries_endpoint startDate endDate of
           Inl err \<Rightarrow> ([], Inl err)
         | Inr endpoint \<Rightarrow>
     (case makeRequest w client ''GET'' endpoint None of
        (sent, Inl err) \<Rightarrow> (sent, Inl (Wrapped ''getting time entries'' err))
      | (sent, Inr resp) \<Rightarrow>
          (case decodeResponse (Unmarshal_TimeEntries w) [] resp of
             (entries, Some err) \<Rightarrow>
               (case errors_As_APIError err of
                  Some (status, body) \<Rightarrow>
                    (sent, Inr (NewToolResultError
                       (''Failed to get time entries: '' @ APIError_Error status body)))
                | None \<Rightarrow> (sent, Inl (Wrapped ''decoding response'' err)))
           | (entries, None) \<Rightarrow>
               (sent, Inr (NewToolResultText (time_entries_text startDate endDate entries))))))"

text \<open>
  \<^verbatim>\<open>handleGetTimeEntriesForDay\<close> writes into the argument map of the request, which Go
  shares with the caller: the map after the call is the first component of the result.
\<close>

definition handleGetTimeEntriesForDay ::
  "world \<Rightarrow> TogglClient \<Rightarrow> arguments \<Rightarrow> arguments \<times> handler_result"
where
  "handleGetTimeEntriesForDay w client args =
     (case getRequiredString args ''date'' of
        Inl err \<Rightarrow> (args, [], Inl (Wrapped ''invalid date'' err))
      | Inr date \<Rightarrow>
          (case time_Parse_date date of
             Inl err \<Rightarrow> (args, [], Inl (Wrapped ''invalid date format (use YYYY-MM-DD)'' err))
           | Inr startDate \<Rightarrow>
               (let endDate = AddDate_one_day startDate;
                    endDateStr = Format_date endDate;
                    args1 = args(''start_date'' \<mapsto> VString date);
                    args2 = args1(''end_date'' \<mapsto> VString endDateStr)
                in (args2, handleGetTimeEntries w client args2))))"

definition handleCreateProject :: "world \<Rightarrow> TogglClient \<Rightarrow> arguments \<Rightarrow> handler_result" where
  "handleCreateProject w client args =
     (case getRequiredString args ''name'' of
        Inl err \<Rightarrow> ([], Inl (Wrapped ''invalid name'' err))
      | Inr name \<Rightarrow>
     (case getRequiredNumber (Float64_overflow w) args ''workspace_id'' of
        Inl err \<Rightarrow> ([], Inl (Wrapped ''invalid workspace_id'' err))
      | Inr workspaceID \<Rightarrow>
     (let project = [''name'' \<mapsto> PString name, ''active'' \<mapsto> PBool True];
          color = getOptionalString args ''color'';
          project = (if color \<noteq> [] then project(''color'' \<mapsto> PString color) else project);
          project = (case getOptionalNumber (Float64_overflow w) args ''client_id'' of
                       Some clientID \<Rightarrow> project(''client_id'' \<mapsto> PInt clientID)
                     | None \<Rightarrow> project)
      in case Marshal_project w project of
           Inl msg \<Rightarrow> ([], Inl (Wrapped ''marshaling request'' (ErrorString msg)))
         | Inr payload \<Rightarrow>
     (case makeRequest w client ''POST''
             (''/workspaces/'' @ Sprintf_d workspaceID @ ''/projects'') (Some payload) of
        (sent, Inl err) \<Rightarrow> (sent, Inl (Wrapped ''creating project'' err))
      | (sent, Inr resp) \<Rightarrow>
          (case decodeResponse (Unmarshal_Project w) zero_Project resp of
             (result, Some err) \<Rightarrow>
               (case errors_As_APIError err of
                  Some (status, body) \<Rightarrow>
                    (sent, Inr (NewToolResultError
                       (''Failed to create project: '' @ APIError_Error status body)))
                | None \<Rightarrow> (sent, Inl (Wrapped ''decoding response'' err)))
           | (result, None) \<Rightarrow>
               (sent, Inr (NewToolResultText
                  (''Created project: '' @ Name result
                   @ '' (ID: '' @ Sprintf_d (ID result) @ '')''))))))))"

definition project_line :: "Project \<Rightarrow> string" where
  "project_line project =
     (let status = (if Active project then ''active'' else ''inactive'')
      in ''- '' @ Name project @ '' (ID: '' @ Sprintf_d (ID project) @ '', '' @ status
         @ '')\<newline>'')"

definition projects_endpoint :: "int \<Rightarrow> arguments \<Rightarrow> string" where
  "projects_endpoint workspaceID args =
     (let endpoint = ''/workspaces/'' @ Sprintf_d workspaceID @ ''/projects'';
          params = [];
          params = (case args ''active'' of
                      Some (VBool active) \<Rightarrow> Values_Set params ''active'' (FormatBool active)
                    | _ \<Rightarrow> params)
      in if length params > 0 then endpoint @ ''?'' @ Values_Encode params else endpoint)"

definition handleGetProjects :: "world \<Rightarrow> TogglClient \<Rightarrow> arguments \<Rightarrow> handler_result" where
  "handleGetProjects w client args =
     (case getRequiredNumber (Float64_overflow w) args ''workspace_id'' of
        Inl err \<Rightarrow> ([], Inl (Wrapped ''invalid workspace_id'' err))
      | Inr workspaceID \<Rightarrow>
     (case makeRequest w client ''GET'' (projects_endpoint workspaceID args) None of
        (sent, Inl err) \<Rightarrow> (sent, Inl (Wrapped ''getting projects'' err))
      | (sent, Inr resp) \<Rightarrow>
          (case decodeResponse (Unmarshal_Projects w) [] resp of
             (projects, Some err) \<Rightarrow>
               (case errors_As_APIError err of
                  Some (status, body) \<Rightarrow>
                    (sent, Inr (NewToolResultError
                       (''Failed to get projects: '' @ APIError_Error status body)))
                | None \<Rightarrow> (sent, Inl (Wrapped ''decoding response'' err)))
           | (projects, None) \<Rightarrow>
               (sent, Inr (NewToolResultText
                  (''Found '' @ Sprintf_d (int (length projects)) @ '' projects:\<newline>''
                   @ concat (map project_line projects)))))))"


section \<open>An instance of \<^verbatim>\<open>json.Unmarshal\<close>\<close>

text \<open>
  \<^verbatim>\<open>json.Unmarshal\<close> belongs to the standard library and is a parameter of
  \<^verbatim>\<open>decodeResponse\<close> above. To run \<^verbatim>\<open>decodeResponse\<close> on concrete bodies, this section
  gives the instance at \<^verbatim>\<open>UserInfo\<close>, following the documentation of
  \<^verbatim>\<open>encoding/json\<close>: the input is first checked as a whole, and a syntax error leaves
  the target untouched; then the value is stored into the target. A JSON \<^verbatim>\<open>null\<close>
  stores nothing. An object stores its members one after the other into the fields whose
  name matches the key (names are compared here after folding ASCII letters); a member
  whose value does not fit the field (a number for a string field, a number that is no
  64-bit integer for an \<^verbatim>\<open>int\<close> field, ...) is skipped and decoding goes on; the first
  such mismatch is the error returned at the end. Any other value for the struct is a
  mismatch that stores nothing. The input is taken to be valid UTF-8; the supply of
  recursion steps replaces the decoder's nesting limit; the text of a syntax error is
  abridged.
\<close>

datatype json =
    JNull
  | JBool bool
  | JNumber string
  | JString string
  | JArray "json list"
  | JObject "(string \<times> json) list"

definition is_space :: "char \<Rightarrow> bool" where
  "is_space c = (c = CHR 0x20 \<or> c = CHR 0x09 \<or> c = CHR 0x0A \<or> c = CHR 0x0D)"

fun skip_space :: "string \<Rightarrow> string" where
  "skip_space [] = []"
| "skip_space (c # cs) = (if is_space c then skip_space cs else c # cs)"

definition hex_value :: "char \<Rightarrow> nat option" where
  "hex_value c =
     (let n = (of_char c :: nat)
      in if 48 \<le> n \<and> n \<le> 57 then Some (n - 48)
         else if 97 \<le> n \<and> n \<le> 102 then Some (n - 87)
         else if 65 \<le> n \<and> n \<le> 70 then Some (n - 55)
         else None)"

definition getu4 :: "string \<Rightarrow> nat option" where
  "getu4 s =
     (case s of
        b # u # h1 # h2 # h3 # h4 # rest \<Rightarrow>
          if b = CHR 0x5C \<and> u = CHR ''u'' then
            (case (hex_value h1, hex_value h2, hex_value h3, hex_value h4) of
               (Some a, Some b, Some c, Some d) \<Rightarrow> Some (4096 * a + 256 * b + 16 * c + d)
             | _ \<Rightarrow> None)
          else None
      | _ \<Rightarrow> None)"

definition EncodeRune :: "nat \<Rightarrow> string" where
  "EncodeRune r =
     (if r < 0x80 then [char_of r]
      else if r < 0x800 then [char_of (0xC0 + r div 64), char_of (0x80 + r mod 64)]
      else if r < 0x10000 then
        [char_of (0xE0 + r div 4096), char_of (0x80 + r div 64 mod 64), char_of (0x80 + r mod 64)]
      else
        [char_of (0xF0 + r div 262144), char_of (0x80 + r div 4096 mod 64),
         char_of (0x80 + r div 64 mod 64), char_of (0x80 + r mod 64)])"

definition simple_escape :: "char \<Rightarrow> char option" where
  "simple_escape e =
     (if e = CHR 0x22 \<or> e = CHR 0x5C \<or> e = CHR ''/'' then Some e
      else if e = CHR ''b'' then Some (CHR 0x08)
      else if e = CHR ''f'' then Some (CHR 0x0C)
      else if e = CHR ''n'' then Some (CHR 0x0A)
      else if e = CHR ''r'' then Some (CHR 0x0D)
      else if e = CHR ''t'' then Some (CHR 0x09)
      else None)"

fun scan_string :: "string \<Rightarrow> (string \<times> string) option" where
  "scan_string [] = None"
| "scan_string (c # cs) =
     (if c = CHR 0x22 then Some ([], cs)
      else if c = CHR 0x5C then
        (case cs of
           [] \<Rightarrow> None
         | e # es \<Rightarrow>
             if e = CHR ''u'' then
               (case getu4 (c # cs) of
                  None \<Rightarrow> None
                | Some r \<Rightarrow>
                    (let rest = drop 5 cs
                     in if 0xD800 \<le> r \<and> r < 0xE000 then
                          (case getu4 rest of
                             Some r1 \<Rightarrow>
                               if r < 0xDC00 \<and> 0xDC00 \<le> r1 \<and> r1 < 0xE000 then
                                 (case scan_string (drop 6 rest) of
                                    None \<Rightarrow> None
                                  | Some (t, out) \<Rightarrow>
                                      Some (EncodeRune (0x10000 + (r - 0xD800) * 1024 + (r1 - 0xDC00)) @ t, out))
                               else
                                 (case scan_string rest of
                                    None \<Rightarrow> None
                                  | Some (t, out) \<Rightarrow> Some (EncodeRune 0xFFFD @ t, out))
                           | None \<Rightarrow>
                               (case scan_string rest of
                                  None \<Rightarrow> None
                                | Some (t, out) \<Rightarrow> Some (EncodeRune 0xFFFD @ t, out)))
                        else
                          (case scan_string rest of
                             None \<Rightarrow> None
                           | Some (t, out) \<Rightarrow> Some (EncodeRune r @ t, out))))
             else
               (case simple_escape e of
                  None \<Rightarrow> None
                | Some b \<Rightarrow>
                    (case scan_string es of
                       None \<Rightarrow> None
                     | Some (t, out) \<Rightarrow> Some (b # t, out))))
      else if (of_char c :: nat) < 0x20 then None
      else
        (case scan_string cs of
           None \<Rightarrow> None
         | Some (t, out) \<Rightarrow> Some (c # t, out)))"


definition scan_fraction :: "string \<Rightarrow> (string \<times> string) option" where
  "scan_fraction s =
     (case s of
        c # cs \<Rightarrow>
          if c = CHR ''.'' then
            (if takeWhile isDigit cs = [] then None
             else Some (c # takeWhile isDigit cs, dropWhile isDigit cs))
          else Some ([], s)
      | [] \<Rightarrow> Some ([], s))"

definition scan_exponent :: "string \<Rightarrow> (string \<times> string) option" where
  "scan_exponent s =
     (case s of
        c # cs \<Rightarrow>
          if c = CHR ''e'' \<or> c = CHR ''E'' then
            (let sign = (case cs of
                           d # ds \<Rightarrow> if d = CHR ''+'' \<or> d = CHR ''-'' then [d] else []
                         | [] \<Rightarrow> []);
                 ds = drop (length sign) cs
             in if takeWhile isDigit ds = [] then None
                else Some (c # sign @ takeWhile isDigit ds, dropWhile isDigit ds))
          else Some ([], s)
      | [] \<Rightarrow> Some ([], s))"

definition scan_number :: "string \<Rightarrow> (string \<times> string) option" where
  "scan_number s =
     (let sign = (case s of c # cs \<Rightarrow> if c = CHR ''-'' then [c] else [] | [] \<Rightarrow> []);
          s1 = drop (length sign) s
      in case s1 of
           [] \<Rightarrow> None
         | c # cs \<Rightarrow>
             if \<not> isDigit c then None
             else
               (let ip = (if c = CHR ''0'' then [c] else c # takeWhile isDigit cs);
                    s2 = drop (length ip) s1
                in case scan_fraction s2 of
                     None \<Rightarrow> None
                   | Some (fp, s3) \<Rightarrow>
                       (case scan_exponent s3 of
                          None \<Rightarrow> None
                        | Some (ep, s4) \<Rightarrow> Some (sign @ ip @ fp @ ep, s4))))"

fun parse_value :: "nat \<Rightarrow> string \<Rightarrow> (json \<times> string) option"
and parse_elements :: "nat \<Rightarrow> string \<Rightarrow> (json list \<times> string) option"
and parse_members :: "nat \<Rightarrow> string \<Rightarrow> ((string \<times> json) list \<times> string) option"
where
  "parse_value 0 s = None"
| "parse_value (Suc n) s =
     (case skip_space s of
        [] \<Rightarrow> None
      | c # cs \<Rightarrow>
          if c = CHR ''{'' then
            (case skip_space cs of
               [] \<Rightarrow> None
             | d # ds \<Rightarrow>
                 if d = CHR ''}'' then Some (JObject [], ds)
                 else (case parse_members n (d # ds) of
                         None \<Rightarrow> None
                       | Some (ms, out) \<Rightarrow> Some (JObject ms, out)))
          else if c = CHR ''['' then
            (case skip_space cs of
               [] \<Rightarrow> None
             | d # ds \<Rightarrow>
                 if d = CHR '']'' then Some (JArray [], ds)
                 else (case parse_elements n (d # ds) of
                         None \<Rightarrow> None
                       | Some (vs, out) \<Rightarrow> Some (JArray vs, out)))
          else if c = CHR 0x22 then
            (case scan_string cs of
               None \<Rightarrow> None
             | Some (t, out) \<Rightarrow> Some (JString t, out))
          else if c = CHR ''-'' \<or> isDigit c then
            (case scan_number (c # cs) of
               None \<Rightarrow> None
             | Some (lit, out) \<Rightarrow> Some (JNumber lit, out))
          else if take 4 (c # cs) = ''true'' then Some (JBool True, drop 4 (c # cs))
          else if take 5 (c # cs) = ''false'' then Some (JBool False, drop 5 (c # cs))
          else if take 4 (c # cs) = ''null'' then Some (JNull, drop 4 (c # cs))
          else None)"
| "parse_elements 0 s = None"
| "parse_elements (Suc n) s =
     (case parse_value n s of
        None \<Rightarrow> None
      | Some (v, out) \<Rightarrow>
          (case skip_space out of
             [] \<Rightarrow> None
           | c # cs \<Rightarrow>
               if c = CHR '','' then
                 (case parse_elements n cs of
                    None \<Rightarrow> None
                  | Some (vs, out') \<Rightarrow> Some (v # vs, out'))
               else if c = CHR '']'' then Some ([v], cs)
               else None))"
| "parse_members 0 s = None"
| "parse_members (Suc n) s =
     (case skip_space s of
        [] \<Rightarrow> None
      | c # cs \<Rightarrow>
          if c \<noteq> CHR 0x22 then None
          else
            (case scan_string cs of
               None \<Rightarrow> None
             | Some (k, out) \<Rightarrow>
                 (case skip_space out of
                    [] \<Rightarrow> None
                  | d # ds \<Rightarrow>
                      if d \<noteq> CHR '':'' then None
                      else
                        (case parse_value n ds of
                           None \<Rightarrow> None
                         | Some (v, out') \<Rightarrow>
                             (case skip_space out' of
                                [] \<Rightarrow> None
                              | e # es \<Rightarrow>
                                  if e = CHR '','' then
                                    (case parse_members n es of
                                       None \<Rightarrow> None
                                     | Some (ms, out'') \<Rightarrow> Some ((k, v) # ms, out''))
                                  else if e = CHR ''}'' then Some ([(k, v)], es)
                                  else None)))))"

definition json_parse :: "string \<Rightarrow> json option" where
  "json_parse body =
     (case parse_value (Suc (length body)) body of
        None \<Rightarrow> None
      | Some (v, out) \<Rightarrow> if skip_space out = [] then Some v else None)"

definition json_kind :: "json \<Rightarrow> string" where
  "json_kind x =
     (case x of
        JNull \<Rightarrow> ''null''
      | JBool b \<Rightarrow> ''bool''
      | JNumber lit \<Rightarrow> ''number''
      | JString t \<Rightarrow> ''string''
      | JArray vs \<Rightarrow> ''array''
      | JObject ms \<Rightarrow> ''object'')"

definition field_type_error :: "string \<Rightarrow> string \<Rightarrow> string \<Rightarrow> string" where
  "field_type_error what field type =
     ''json: cannot unmarshal '' @ what @ '' into Go struct field UserInfo.'' @ field
     @ '' of type '' @ type"

definition parse_int_literal :: "string \<Rightarrow> int option" where
  "parse_int_literal lit =
     (let neg = (case lit of c # cs \<Rightarrow> c = CHR ''-'' | [] \<Rightarrow> False);
          ds = (if neg then drop 1 lit else lit)
      in if ds \<noteq> [] \<and> list_all isDigit ds then
           (let n = foldl (\<lambda>a c. 10 * a + digit_value c) 0 ds;
                v = (if neg then - n else n)
            in if fits_int v then Some v else None)
         else None)"

definition decode_int :: "string \<Rightarrow> json \<Rightarrow> int \<Rightarrow> int \<times> string option" where
  "decode_int field x old =
     (case x of
        JNull \<Rightarrow> (old, None)
      | JNumber lit \<Rightarrow>
          (case parse_int_literal lit of
             Some n \<Rightarrow> (n, None)
           | None \<Rightarrow> (old, Some (field_type_error (''number '' @ lit) field ''int'')))
      | _ \<Rightarrow> (old, Some (field_type_error (json_kind x) field ''int'')))"

definition decode_string :: "string \<Rightarrow> json \<Rightarrow> string \<Rightarrow> string \<times> string option" where
  "decode_string field x old =
     (case x of
        JNull \<Rightarrow> (old, None)
      | JString t \<Rightarrow> (t, None)
      | _ \<Rightarrow> (old, Some (field_type_error (json_kind x) field ''string'')))"

definition to_lower :: "char \<Rightarrow> char" where
  "to_lower c =
     (let n = (of_char c :: nat) in if 65 \<le> n \<and> n \<le> 90 then char_of (n + 32) else c)"

definition decode_UserInfo_field :: "string \<Rightarrow> json \<Rightarrow> UserInfo \<Rightarrow> UserInfo \<times> string option" where
  "decode_UserInfo_field key x u =
     (let k = map to_lower key
      in if k = ''id'' then
           (case decode_int ''id'' x (User_ID u) of (n, e) \<Rightarrow> (u\<lparr>User_ID := n\<rparr>, e))
         else if k = ''email'' then
           (case decode_string ''email'' x (Email u) of (t, e) \<Rightarrow> (u\<lparr>Email := t\<rparr>, e))
         else if k = ''fullname'' then
           (case decode_string ''fullname'' x (Fullname u) of (t, e) \<Rightarrow> (u\<lparr>Fullname := t\<rparr>, e))
         else if k = ''default_workspace_id'' then
           (case decode_int ''default_workspace_id'' x (DefaultWorkspaceID u) of
              (n, e) \<Rightarrow> (u\<lparr>DefaultWorkspaceID := n\<rparr>, e))
         else (u, None))"

fun decode_UserInfo_members ::
  "(string \<times> json) list \<Rightarrow> UserInfo \<times> string option \<Rightarrow> UserInfo \<times> string option"
where
  "decode_UserInfo_members [] acc = acc"
| "decode_UserInfo_members ((k, x) # ms) (u, saved) =
     (case decode_UserInfo_field k x u of
        (u', e) \<Rightarrow>
          decode_UserInfo_members ms (u', (case saved of None \<Rightarrow> e | Some first \<Rightarrow> Some first)))"

definition json_Unmarshal_UserInfo :: "string \<Rightarrow> UserInfo \<Rightarrow> UserInfo \<times> string option" where
  "json_Unmarshal_UserInfo body v =
     (case json_parse body of
        None \<Rightarrow> (v, Some ''json: syntax error'')
      | Some JNull \<Rightarrow> (v, None)
      | Some (JObject ms) \<Rightarrow> decode_UserInfo_members ms (v, None)
      | Some x \<Rightarrow>
          (v, Some (''json: cannot unmarshal '' @ json_kind x
                    @ '' into Go value of type app.UserInfo'')))"

section \<open>Responses used as concrete inputs\<close>

text \<open>
  Three responses: a rejected request with a JSON error body, a success status with a body
  that is no JSON, and a success status with a body that matches \<^verbatim>\<open>UserInfo\<close> in its
  first member and not in its second.
\<close>

definition bad_request :: response where
  \<open>bad_request = \<lparr>StatusCode = 400, Body = Readable ''{"error":"Bad Request"}''\<rparr>\<close>

definition broken_json :: response where
  \<open>broken_json = \<lparr>StatusCode = 200, Body = Readable ''{broken json''\<rparr>\<close>

definition partly_matching :: response where
  \<open>partly_matching = \<lparr>StatusCode = 200, Body = Readable ''{"id": 7, "email": 5}''\<rparr>\<close>

text \<open>
  A world for concrete runs, in the manner of the repository's test server: every
  request is accepted and answered by the given function; the platform converts an
  out-of-range \<^verbatim>\<open>float64\<close> to the least \<^verbatim>\<open>int\<close>; the JSON functions other than the
  \<^verbatim>\<open>UserInfo\<close> instance are stand-ins that accept the literal bodies \<^verbatim>\<open>{}\<close> and
  \<^verbatim>\<open>[]\<close> only.
\<close>

definition test_world :: "(request \<Rightarrow> string + response) \<Rightarrow> world" where
  "test_world answer =
     \<lparr>NewRequest_refuses = (\<lambda>method url. None),
      Do = answer,
      Now = 0,
      Since_Round_String = (\<lambda>t. ''0s''),
      Float64_overflow = (\<lambda>x. - (2 ^ 63)),
      Marshal_TimeEntryRequest = (\<lambda>entry. Inr ''{}''),
      Marshal_project = (\<lambda>project. Inr ''{}''),
      Unmarshal_UserInfo = json_Unmarshal_UserInfo,
      Unmarshal_TimeEntry =
        (\<lambda>body v. if body = ''{}'' then (v, None) else (v, Some ''json: unsupported'')),
      Unmarshal_TimeEntries =
        (\<lambda>body v. if body = ''[]'' then ([], None) else (v, Some ''json: unsupported'')),
      Unmarshal_Project =
        (\<lambda>body v. if body = ''{}'' then (v, None) else (v, Some ''json: unsupported'')),
      Unmarshal_Projects =
        (\<lambda>body v. if body = ''[]'' then ([], None) else (v, Some ''json: unsupported''))\<rparr>"

definition test_client :: TogglClient where
  "test_client = \<lparr>APIToken = ''test-token''\<rparr>"

definition answer_with :: "int \<Rightarrow> string \<Rightarrow> request \<Rightarrow> string + response" where
  "answer_with status body req = Inr \<lparr>StatusCode = status, Body = Readable body\<rparr>"

text \<open>The requests these runs hand to the transport.\<close>

definition current_lookup :: request where
  "current_lookup =
     \<lparr>Method = ''GET'', URL = ''https://api.track.toggl.com/api/v9/me/time_entries/current'',
      Payload = None, Content_Type = ''application/json'',
      BasicAuth = (''test-token'', ''api_token'')\<rparr>"

definition plain_projects_request :: request where
  "plain_projects_request =
     \<lparr>Method = ''GET'', URL = ''https://api.track.toggl.com/api/v9/workspaces/456/projects'',
      Payload = None, Content_Type = ''application/json'',
      BasicAuth = (''test-token'', ''api_token'')\<rparr>"

definition same_day_request :: request where
  "same_day_request =
     \<lparr>Method = ''GET'',
      URL = ''https://api.track.toggl.com/api/v9/me/time_entries?end_date=2025-01-15&start_date=2025-01-15'',
      Payload = None, Content_Type = ''application/json'',
      BasicAuth = (''test-token'', ''api_token'')\<rparr>"

definition range_request :: request where
  "range_request =
     \<lparr>Method = ''GET'',
      URL = ''https://api.track.toggl.com/api/v9/me/time_entries?end_date=2025-02-01&start_date=2025-01-31'',
      Payload = None, Content_Type = ''application/json'',
      BasicAuth = (''test-token'', ''api_token'')\<rparr>"

section \<open>The calendar, in the words of the specification\<close>

text \<open>
  "Plus one calendar day" is read off the calendar itself: every date has a day number,
  the count of days from the start of year 0 (the days of the years before, the days of
  the months before in its year, and its day of the month); the next calendar day is the
  date whose day number is one more. A date is valid when its month is 1..12 and its day
  lies in the month.
\<close>

definition days_before_year :: "int \<Rightarrow> int" where
  "days_before_year y = 365 * y + (y + 3) div 4 - (y + 99) div 100 + (y + 399) div 400"

definition days_before_month :: "int \<Rightarrow> int \<Rightarrow> int" where
  "days_before_month m y = sum_list (map (\<lambda>k. daysIn k y) [1..m - 1])"

definition day_number :: "civil_date \<Rightarrow> int" where
  "day_number t = (case t of (y, m, d) \<Rightarrow> days_before_year y + days_before_month m y + d)"

definition valid_date :: "civil_date \<Rightarrow> bool" where
  "valid_date t = (case t of (y, m, d) \<Rightarrow> 0 \<le> y \<and> 1 \<le> m \<and> m \<le> 12 \<and> 1 \<le> d \<and> d \<le> daysIn m y)"

section \<open>Properties of parameter extraction and duration formatting\<close>

lemma sdiv_nonneg: "0 \<le> (a::int) \<Longrightarrow> 0 < b \<Longrightarrow> a sdiv b = a div b"
  by (simp add: signed_divide_int_def sgn_if)

lemma smod_nonneg: "0 \<le> (a::int) \<Longrightarrow> 0 < b \<Longrightarrow> a smod b = a mod b"
  by (simp add: signed_modulo_int_def sgn_if)

lemma Sprintf_d_nonneg: "0 \<le> i \<Longrightarrow> Sprintf_d i = nat_decimal (nat i)"
  by (simp add: Sprintf_d_def)

lemma formatDuration_refines_spec: "formatDuration s = formatDuration_spec s"
proof (cases "s < 0")
  case True
  then show ?thesis by (simp add: formatDuration_def formatDuration_spec_def)
next
  case False
  then have s: "0 \<le> s" by simp
  have h: "s sdiv 3600 = int (nat s div 3600)"
    using s by (simp add: sdiv_nonneg zdiv_int)
  have m: "(s smod 3600) sdiv 60 = int ((nat s mod 3600) div 60)"
    using s by (simp add: sdiv_nonneg smod_nonneg zdiv_int zmod_int)
  have c: "s smod 60 = int (nat s mod 60)"
    using s by (simp add: smod_nonneg zmod_int)
  show ?thesis
    using False unfolding formatDuration_def formatDuration_spec_def h m c Let_def
    by (simp add: Sprintf_d_nonneg)
qed

text \<open>
  C8. For every number of seconds, \<^verbatim>\<open>formatDuration\<close> gives the rendering the
  specification describes: \<^verbatim>\<open>[running]\<close> for a negative number, otherwise hours,
  minutes and seconds by integer division by 3600 and 60, without the hour component
  when it is zero, without hour and minute component when both are zero, and always
  with the seconds. The six values the specification lists are as stated.
\<close>

theorem formatDuration_correct:
  "formatDuration s = formatDuration_spec s
   \<and> formatDuration (- 1) = ''[running]''
   \<and> formatDuration 0 = ''[0s]''
   \<and> formatDuration 60 = ''[1m 0s]''
   \<and> formatDuration 3600 = ''[1h 0m 0s]''
   \<and> formatDuration 3665 = ''[1h 1m 5s]''
   \<and> formatDuration 90061 = ''[25h 1m 1s]''"
proof -
  have e1: "formatDuration (- 1) = ''[running]''" by (simp add: formatDuration_def)
  have e2: "formatDuration 0 = ''[0s]''" by code_simp
  have e3: "formatDuration 60 = ''[1m 0s]''" by code_simp
  have e4: "formatDuration 3600 = ''[1h 0m 0s]''" by code_simp
  have e5: "formatDuration 3665 = ''[1h 1m 5s]''" by code_simp
  have e6: "formatDuration 90061 = ''[25h 1m 1s]''" by code_simp
  show ?thesis using formatDuration_refines_spec e1 e2 e3 e4 e5 e6 by blast
qed

theorem formatDuration_correct_witness:
  "formatDuration 359999 = ''[99h 59m 59s]'' \<and> formatDuration_spec 359999 = ''[99h 59m 59s]''"
proof -
  have "formatDuration_spec 359999 = ''[99h 59m 59s]''"
    by (simp add: formatDuration_spec_def nat_decimal.simps digit_char_def)
  then show ?thesis using formatDuration_correct [of 359999] by simp
qed

text \<open>
  C7, as the claim states it, fails: for the number \<^verbatim>\<open>1e19\<close>, whose truncation does
  not fit Go's \<^verbatim>\<open>int\<close>, \<^verbatim>\<open>getRequiredNumber\<close> returns the least \<^verbatim>\<open>int\<close> (on amd64),
  not the value truncated towards zero.
\<close>

theorem getRequiredNumber_out_of_range:
  "getRequiredNumber least_int_on_overflow [''count'' \<mapsto> VFloat64 (10 ^ 19)] ''count''
     = Inr (- 9223372036854775808)
   \<and> trunc_toward_zero (10 ^ 19) = 10000000000000000000
   \<and> (- 9223372036854775808 :: int) \<noteq> 10000000000000000000"
proof -
  have t: "trunc_toward_zero 10000000000000000000 = 10000000000000000000"
    by (simp add: trunc_toward_zero_def)
  have f: "\<not> fits_int 10000000000000000000"
    by (simp add: fits_int_def)
  have r: "getRequiredNumber least_int_on_overflow [''count'' \<mapsto> VFloat64 (10 ^ 19)] ''count''
             = Inr (- 9223372036854775808)"
    by (simp add: getRequiredNumber_def int_of_float64_def t f least_int_on_overflow_def)
  show ?thesis using t r by simp
qed

text \<open>
  C7, amended. \<^verbatim>\<open>getRequiredNumber\<close> fails exactly when the key is absent, null or holds
  a value that is not a number, and the error names the field; on a number whose
  truncation towards zero fits Go's \<^verbatim>\<open>int\<close> it returns that truncation, and zero is
  accepted. \<^verbatim>\<open>getRequiredString\<close> fails exactly when the key is absent, null, not a
  string, or the empty string, and the error names the field; every non-empty string is
  returned as it is.
\<close>

theorem parameter_extraction:
  "((\<exists>e. getRequiredNumber impl params key = Inl e) \<longleftrightarrow>
      (params key = None \<or> params key = Some VNil
       \<or> (\<exists>v. params key = Some v \<and> \<not> is_number v)))
   \<and> (\<forall>e. getRequiredNumber impl params key = Inl e \<longrightarrow> Error e = key @ '' must be a number'')
   \<and> (\<forall>x. params key = Some (VFloat64 x) \<and> fits_int (trunc_toward_zero x) \<longrightarrow>
          getRequiredNumber impl params key = Inr (trunc_toward_zero x))
   \<and> (params key = Some (VFloat64 0) \<longrightarrow> getRequiredNumber impl params key = Inr 0)
   \<and> ((\<exists>e. getRequiredString params key = Inl e) \<longleftrightarrow>
      (params key = None \<or> params key = Some VNil
       \<or> (\<exists>v. params key = Some v \<and> \<not> is_string v)
       \<or> params key = Some (VString [])))
   \<and> (\<forall>e. getRequiredString params key = Inl e \<longrightarrow>
          Error e = key @ '' must be a non-empty string'')
   \<and> (\<forall>s. params key = Some (VString s) \<and> s \<noteq> [] \<longrightarrow> getRequiredString params key = Inr s)"
proof -
  have n1: "(\<exists>e. getRequiredNumber impl params key = Inl e) \<longleftrightarrow>
      (params key = None \<or> params key = Some VNil
       \<or> (\<exists>v. params key = Some v \<and> \<not> is_number v))"
    by (auto simp: getRequiredNumber_def is_number_def split: option.splits go_value.splits)
  have n2: "\<forall>e. getRequiredNumber impl params key = Inl e \<longrightarrow> Error e = key @ '' must be a number''"
    by (auto simp: getRequiredNumber_def split: option.splits go_value.splits)
  have n3: "\<forall>x. params key = Some (VFloat64 x) \<and> fits_int (trunc_toward_zero x) \<longrightarrow>
          getRequiredNumber impl params key = Inr (trunc_toward_zero x)"
    by (simp add: getRequiredNumber_def int_of_float64_def)
  have n4: "params key = Some (VFloat64 0) \<longrightarrow> getRequiredNumber impl params key = Inr 0"
    by (simp add: getRequiredNumber_def int_of_float64_def trunc_toward_zero_def fits_int_def)
  have s1: "(\<exists>e. getRequiredString params key = Inl e) \<longleftrightarrow>
      (params key = None \<or> params key = Some VNil
       \<or> (\<exists>v. params key = Some v \<and> \<not> is_string v)
       \<or> params key = Some (VString []))"
    by (auto simp: getRequiredString_def is_string_def split: option.splits go_value.splits)
  have s2: "\<forall>e. getRequiredString params key = Inl e \<longrightarrow>
          Error e = key @ '' must be a non-empty string''"
    by (auto simp: getRequiredString_def split: option.splits go_value.splits if_splits)
  have s3: "\<forall>s. params key = Some (VString s) \<and> s \<noteq> [] \<longrightarrow> getRequiredString params key = Inr s"
    by (simp add: getRequiredString_def)
  show ?thesis using n1 n2 n3 n4 s1 s2 s3 by blast
qed

theorem parameter_extraction_witness:
  "getRequiredNumber (\<lambda>x. 0) [''count'' \<mapsto> VFloat64 (427 / 10)] ''count'' = Inr 42
   \<and> getRequiredNumber (\<lambda>x. 0) [''count'' \<mapsto> VFloat64 0] ''count'' = Inr 0
   \<and> (\<exists>e. getRequiredNumber (\<lambda>x. 0) [''count'' \<mapsto> VString ''42''] ''count'' = Inl e)
   \<and> getRequiredString [''name'' \<mapsto> VString ''a''] ''name'' = Inr ''a''
   \<and> (\<exists>e. getRequiredString [''name'' \<mapsto> VString []] ''name'' = Inl e)"
proof -
  let ?p1 = "[''count'' \<mapsto> VFloat64 (427 / 10)]"
  let ?p3 = "[''count'' \<mapsto> VFloat64 0]"
  let ?p4 = "[''count'' \<mapsto> VString ''42'']"
  let ?q1 = "[''name'' \<mapsto> VString ''a'']"
  let ?q2 = "[''name'' \<mapsto> VString []]"
  have t1: "trunc_toward_zero (427 / 10) = 42" by code_simp
  have f: "fits_int (trunc_toward_zero (427 / 10))" unfolding t1 by (simp add: fits_int_def)
  have l1: "?p1 ''count'' = Some (VFloat64 (427 / 10))" by simp
  have "\<forall>x. ?p1 ''count'' = Some (VFloat64 x) \<and> fits_int (trunc_toward_zero x) \<longrightarrow>
          getRequiredNumber (\<lambda>x. 0) ?p1 ''count'' = Inr (trunc_toward_zero x)"
    using parameter_extraction [of "\<lambda>x. 0" ?p1 "''count''"] by (elim conjE)
  then have "getRequiredNumber (\<lambda>x. 0) ?p1 ''count'' = Inr (trunc_toward_zero (427 / 10))"
    using l1 f by blast
  then have a1: "getRequiredNumber (\<lambda>x. 0) ?p1 ''count'' = Inr 42"
    unfolding t1 .
  have "?p3 ''count'' = Some (VFloat64 0) \<longrightarrow> getRequiredNumber (\<lambda>x. 0) ?p3 ''count'' = Inr 0"
    using parameter_extraction [of "\<lambda>x. 0" ?p3 "''count''"] by (elim conjE)
  then have a3: "getRequiredNumber (\<lambda>x. 0) ?p3 ''count'' = Inr 0"
    by simp
  have "(\<exists>e. getRequiredNumber (\<lambda>x. 0) ?p4 ''count'' = Inl e) \<longleftrightarrow>
      (?p4 ''count'' = None \<or> ?p4 ''count'' = Some VNil
       \<or> (\<exists>v. ?p4 ''count'' = Some v \<and> \<not> is_number v))"
    using parameter_extraction [of "\<lambda>x. 0" ?p4 "''count''"] by (elim conjE)
  then have a4: "\<exists>e. getRequiredNumber (\<lambda>x. 0) ?p4 ''count'' = Inl e"
    by (simp add: is_number_def)
  have "\<forall>s. ?q1 ''name'' = Some (VString s) \<and> s \<noteq> [] \<longrightarrow> getRequiredString ?q1 ''name'' = Inr s"
    using parameter_extraction [of "\<lambda>x. 0" ?q1 "''name''"] by (elim conjE)
  then have b1: "getRequiredString ?q1 ''name'' = Inr ''a''"
    by simp
  have "(\<exists>e. getRequiredString ?q2 ''name'' = Inl e) \<longleftrightarrow>
      (?q2 ''name'' = None \<or> ?q2 ''name'' = Some VNil
       \<or> (\<exists>v. ?q2 ''name'' = Some v \<and> \<not> is_string v)
       \<or> ?q2 ''name'' = Some (VString []))"
    using parameter_extraction [of "\<lambda>x. 0" ?q2 "''name''"] by (elim conjE)
  then have b2: "\<exists>e. getRequiredString ?q2 ''name'' = Inl e"
    by simp
  show ?thesis using a1 a3 a4 b1 b2 by (intro conjI)
qed

section \<open>Properties of the response decoder\<close>

lemma decodeResponse_Broken:
  "Body resp = Broken msg \<Longrightarrow>
   decodeResponse unmarshal zero resp
     = (zero, Some (Wrapped ''reading response body'' (ErrorString msg)))"
  by (simp add: decodeResponse_def)

lemma decodeResponse_non2xx:
  "Body resp = Readable raw \<Longrightarrow> StatusCode resp < 200 \<or> 300 \<le> StatusCode resp \<Longrightarrow>
   decodeResponse unmarshal zero resp = (zero, Some (APIError (StatusCode resp) raw))"
  by (auto simp: decodeResponse_def)

lemma decodeResponse_2xx:
  "Body resp = Readable raw \<Longrightarrow> 200 \<le> StatusCode resp \<Longrightarrow> StatusCode resp < 300 \<Longrightarrow>
   decodeResponse unmarshal zero resp
     = (fst (unmarshal raw zero),
        map_option (\<lambda>msg. Wrapped ''decoding response'' (ErrorString msg)) (snd (unmarshal raw zero)))"
  by (cases "unmarshal raw zero") (auto simp: decodeResponse_def split: option.splits)

text \<open>
  C3. For every response whose body can be read: a status outside [200,300) gives an
  \<^verbatim>\<open>APIError\<close> that carries the status and the raw body as it was read; a status inside
  [200,300) with a body that \<^verbatim>\<open>json.Unmarshal\<close> rejects gives a decode error, which is
  no \<^verbatim>\<open>APIError\<close>. A body that cannot be read gives the body-read error. Whatever the
  response, the error is an \<^verbatim>\<open>APIError\<close> exactly for a read body with a status outside
  [200,300), and a decode error exactly for a read body with a status inside and a
  failing \<^verbatim>\<open>json.Unmarshal\<close>: the kinds are never confused.
\<close>

theorem decodeResponse_error_kinds:
  "(case Body resp of
      Readable raw \<Rightarrow>
        ((StatusCode resp < 200 \<or> 300 \<le> StatusCode resp) \<longrightarrow>
           snd (decodeResponse unmarshal zero resp) = Some (APIError (StatusCode resp) raw))
        \<and> ((200 \<le> StatusCode resp \<and> StatusCode resp < 300 \<and> snd (unmarshal raw zero) \<noteq> None) \<longrightarrow>
           (\<exists>msg. snd (decodeResponse unmarshal zero resp)
                    = Some (Wrapped ''decoding response'' (ErrorString msg))))
    | Broken msg \<Rightarrow>
        snd (decodeResponse unmarshal zero resp)
          = Some (Wrapped ''reading response body'' (ErrorString msg)))
   \<and> (\<forall>e. snd (decodeResponse unmarshal zero resp) = Some e \<longrightarrow>
         ((errors_As_APIError e \<noteq> None) \<longleftrightarrow>
            ((\<exists>raw. Body resp = Readable raw)
             \<and> (StatusCode resp < 200 \<or> 300 \<le> StatusCode resp)))
         \<and> ((\<exists>msg. e = Wrapped ''decoding response'' (ErrorString msg)) \<longleftrightarrow>
            ((\<exists>raw. Body resp = Readable raw \<and> snd (unmarshal raw zero) \<noteq> None)
             \<and> 200 \<le> StatusCode resp \<and> StatusCode resp < 300))
         \<and> ((\<exists>msg. e = Wrapped ''decoding response'' (ErrorString msg)) \<longrightarrow>
            errors_As_APIError e = None))"
proof (cases "Body resp")
  case (Broken msg)
  then show ?thesis
    by (simp add: decodeResponse_Broken)
next
  case (Readable raw)
  show ?thesis
  proof (cases "StatusCode resp < 200 \<or> 300 \<le> StatusCode resp")
    case True
    then show ?thesis
      using Readable by (auto simp: decodeResponse_non2xx)
  next
    case False
    then have r: "200 \<le> StatusCode resp" "StatusCode resp < 300" by auto
    show ?thesis
      using Readable r by (auto simp: decodeResponse_2xx)
  qed
qed

lemma broken_json_unmarshal:
  "json_Unmarshal_UserInfo ''{broken json'' zero_UserInfo = (zero_UserInfo, Some ''json: syntax error'')"
  by code_simp

theorem decodeResponse_error_kinds_witness:
  \<open>snd (decodeResponse json_Unmarshal_UserInfo zero_UserInfo bad_request)
     = Some (APIError 400 ''{"error":"Bad Request"}'')
   \<and> (\<exists>msg. snd (decodeResponse json_Unmarshal_UserInfo zero_UserInfo broken_json)
         = Some (Wrapped ''decoding response'' (ErrorString msg)))
   \<and> errors_As_APIError (Wrapped ''decoding response'' (ErrorString ''json: syntax error'')) = None\<close>
proof -
  have a: \<open>snd (decodeResponse json_Unmarshal_UserInfo zero_UserInfo bad_request)
     = Some (APIError 400 ''{"error":"Bad Request"}'')\<close>
    using decodeResponse_error_kinds [of bad_request json_Unmarshal_UserInfo zero_UserInfo]
    by (simp add: bad_request_def)
  have b: \<open>\<exists>msg. snd (decodeResponse json_Unmarshal_UserInfo zero_UserInfo broken_json)
         = Some (Wrapped ''decoding response'' (ErrorString msg))\<close>
    using decodeResponse_error_kinds [of broken_json json_Unmarshal_UserInfo zero_UserInfo]
    by (simp add: broken_json_def broken_json_unmarshal)
  show ?thesis using a b by simp
qed

text \<open>
  C2, as the claim states it, fails: with status 200 and the body
  \<^verbatim>\<open>{"id": 7, "email": 5}\<close>, \<^verbatim>\<open>decodeResponse[UserInfo]\<close> returns a decode error
  together with a value whose \<^verbatim>\<open>ID\<close> is 7, not the zero value.
\<close>

theorem decodeResponse_value_beside_error:
  \<open>decodeResponse json_Unmarshal_UserInfo zero_UserInfo partly_matching
     = (\<lparr>User_ID = 7, Email = [], Fullname = [], DefaultWorkspaceID = 0\<rparr>,
        Some (Wrapped ''decoding response'' (ErrorString
          ''json: cannot unmarshal number into Go struct field UserInfo.email of type string'')))
   \<and> \<lparr>User_ID = 7, Email = [], Fullname = [], DefaultWorkspaceID = 0\<rparr> \<noteq> zero_UserInfo\<close>
proof -
  have u: \<open>json_Unmarshal_UserInfo ''{"id": 7, "email": 5}'' zero_UserInfo
      = (\<lparr>User_ID = 7, Email = [], Fullname = [], DefaultWorkspaceID = 0\<rparr>,
         Some ''json: cannot unmarshal number into Go struct field UserInfo.email of type string'')\<close>
    by code_simp
  have d: \<open>decodeResponse json_Unmarshal_UserInfo zero_UserInfo partly_matching
     = (\<lparr>User_ID = 7, Email = [], Fullname = [], DefaultWorkspaceID = 0\<rparr>,
        Some (Wrapped ''decoding response'' (ErrorString
          ''json: cannot unmarshal number into Go struct field UserInfo.email of type string'')))\<close>
    by (simp add: decodeResponse_def partly_matching_def u)
  have n: "\<lparr>User_ID = 7, Email = [], Fullname = [], DefaultWorkspaceID = 0\<rparr> \<noteq> zero_UserInfo"
    by (simp add: zero_UserInfo_def)
  show ?thesis using d n by (intro conjI)
qed

text \<open>
  C2, amended. \<^verbatim>\<open>decodeResponse\<close> returns no error exactly when the body was read, the
  status is inside [200,300) and \<^verbatim>\<open>json.Unmarshal\<close> reported none. Whenever
  \<^verbatim>\<open>json.Unmarshal\<close> ran, the value returned is what it left in the result, with or
  without an error. Beside a body-read error or an \<^verbatim>\<open>APIError\<close> the value returned is the
  zero value.
\<close>

theorem decodeResponse_value_and_error:
  "(snd (decodeResponse unmarshal zero resp) = None \<longleftrightarrow>
      (\<exists>raw. Body resp = Readable raw \<and> 200 \<le> StatusCode resp \<and> StatusCode resp < 300
             \<and> snd (unmarshal raw zero) = None))
   \<and> (\<forall>raw. Body resp = Readable raw \<and> 200 \<le> StatusCode resp \<and> StatusCode resp < 300 \<longrightarrow>
         fst (decodeResponse unmarshal zero resp) = fst (unmarshal raw zero))
   \<and> ((\<exists>msg. Body resp = Broken msg) \<or> StatusCode resp < 200 \<or> 300 \<le> StatusCode resp \<longrightarrow>
         fst (decodeResponse unmarshal zero resp) = zero)"
proof (cases "Body resp")
  case (Broken msg)
  then show ?thesis
    by (simp add: decodeResponse_Broken)
next
  case (Readable raw)
  show ?thesis
  proof (cases "StatusCode resp < 200 \<or> 300 \<le> StatusCode resp")
    case True
    then show ?thesis
      using Readable by (auto simp: decodeResponse_non2xx)
  next
    case False
    then have r: "200 \<le> StatusCode resp" "StatusCode resp < 300" by auto
    show ?thesis
      using Readable r by (auto simp: decodeResponse_2xx)
  qed
qed

theorem decodeResponse_value_and_error_witness:
  \<open>fst (decodeResponse json_Unmarshal_UserInfo zero_UserInfo bad_request) = zero_UserInfo
   \<and> snd (decodeResponse json_Unmarshal_UserInfo zero_UserInfo bad_request) \<noteq> None
   \<and> fst (decodeResponse json_Unmarshal_UserInfo zero_UserInfo broken_json) = zero_UserInfo
   \<and> snd (decodeResponse json_Unmarshal_UserInfo zero_UserInfo broken_json) \<noteq> None\<close>
proof -
  have a: "fst (decodeResponse json_Unmarshal_UserInfo zero_UserInfo bad_request) = zero_UserInfo
      \<and> snd (decodeResponse json_Unmarshal_UserInfo zero_UserInfo bad_request) \<noteq> None"
    using decodeResponse_value_and_error [of json_Unmarshal_UserInfo zero_UserInfo bad_request]
    by (simp add: bad_request_def)
  have b: "fst (decodeResponse json_Unmarshal_UserInfo zero_UserInfo broken_json) = zero_UserInfo
      \<and> snd (decodeResponse json_Unmarshal_UserInfo zero_UserInfo broken_json) \<noteq> None"
    using decodeResponse_value_and_error [of json_Unmarshal_UserInfo zero_UserInfo broken_json]
    by (simp add: broken_json_def broken_json_unmarshal)
  show ?thesis using a b by simp
qed

section \<open>Properties of the handlers\<close>

lemma test_world_makeRequest:
  "makeRequest (test_world answer) test_client method endpoint body
    = (let req = \<lparr>Method = method, URL = togglAPIBase @ endpoint, Payload = body,
                    Content_Type = ''application/json'',
                    BasicAuth = (''test-token'', ''api_token'')\<rparr>
       in case answer req of
            Inl msg \<Rightarrow> ([req], Inl (Wrapped ''executing request'' (ErrorString msg)))
          | Inr resp \<Rightarrow> ([req], Inr resp))"
  by (simp add: makeRequest_def test_world_def test_client_def Let_def)

lemma test_world_current_lookup:
  "makeRequest (test_world (answer_with status body)) test_client ''GET''
     ''/me/time_entries/current'' None
   = ([current_lookup], Inr \<lparr>StatusCode = status, Body = Readable body\<rparr>)"
  by (simp add: test_world_makeRequest answer_with_def current_lookup_def togglAPIBase_def)

text \<open>
  C4. When the lookup \<^verbatim>\<open>GET /me/time_entries/current\<close> is answered with status 404,
  \<^verbatim>\<open>get_current_time_entry\<close> and (called with a workspace id, without which it issues no
  lookup) \<^verbatim>\<open>stop_time_entry\<close> return the text \<^verbatim>\<open>No running time entry found\<close> as an
  ordinary result: no hard error, and the error flag is not set. The body of the
  response plays no part.
\<close>

theorem no_running_entry_is_plain_result:
  "makeRequest w client ''GET'' ''/me/time_entries/current'' None = (sent, Inr resp)
   \<Longrightarrow> StatusCode resp = 404
   \<Longrightarrow> handleGetCurrentTimeEntry w client args
         = (sent, Inr \<lparr>Text = ''No running time entry found'', IsError = False\<rparr>)
       \<and> (\<forall>x. args ''workspace_id'' = Some (VFloat64 x) \<longrightarrow>
             handleStopTimeEntry w client args
               = (sent, Inr \<lparr>Text = ''No running time entry found'', IsError = False\<rparr>))"
  by (simp add: handleGetCurrentTimeEntry_def handleStopTimeEntry_def getRequiredNumber_def
        NewToolResultText_def)

theorem no_running_entry_is_plain_result_witness:
  "handleGetCurrentTimeEntry (test_world (answer_with 404 [])) test_client Map.empty
     = ([current_lookup], Inr \<lparr>Text = ''No running time entry found'', IsError = False\<rparr>)
   \<and> handleStopTimeEntry (test_world (answer_with 404 [])) test_client
        [''workspace_id'' \<mapsto> VFloat64 456]
     = ([current_lookup], Inr \<lparr>Text = ''No running time entry found'', IsError = False\<rparr>)"
proof -
  let ?w = "test_world (answer_with 404 [])"
  let ?resp = "\<lparr>StatusCode = 404, Body = Readable []\<rparr>"
  have m: "makeRequest ?w test_client ''GET'' ''/me/time_entries/current'' None
             = ([current_lookup], Inr ?resp)"
    by (rule test_world_current_lookup)
  have s: "StatusCode ?resp = 404" by simp
  have a: "[''workspace_id'' \<mapsto> VFloat64 456] ''workspace_id'' = Some (VFloat64 456)" by simp
  show ?thesis
    using no_running_entry_is_plain_result [OF m s, of Map.empty]
          no_running_entry_is_plain_result [OF m s, of "[''workspace_id'' \<mapsto> VFloat64 456]"] a
    by blast
qed

text \<open>
  The error classification policy at the decode sites: when the decode of the response
  yields an \<^verbatim>\<open>APIError\<close>, the handler returns a result with the error flag set whose
  text embeds status and body. Seven of the eight decode sites follow it.
\<close>

lemma handleTestConnection_APIError:
  "makeRequest w client ''GET'' ''/me'' None = (sent, Inr resp)
   \<Longrightarrow> decodeResponse (Unmarshal_UserInfo w) zero_UserInfo resp = (v, Some err)
   \<Longrightarrow> errors_As_APIError err = Some (status, body)
   \<Longrightarrow> handleTestConnection w client args
        = (sent, Inr \<lparr>Text = ''Authentication failed: '' @ APIError_Error status body,
                      IsError = True\<rparr>)"
  by (simp add: handleTestConnection_def NewToolResultError_def)

lemma handleStartTimeEntry_APIError:
  "getRequiredString args ''description'' = Inr description
   \<Longrightarrow> getRequiredNumber (Float64_overflow w) args ''workspace_id'' = Inr workspaceID
   \<Longrightarrow> Marshal_TimeEntryRequest w
         \<lparr>Request_Description = description, Request_Start = Now w, Request_Duration = - 1,
          Request_ProjectID = getOptionalNumber (Float64_overflow w) args ''project_id'',
          Request_Tags = [], CreatedWith = ''toggl-mcp''\<rparr> = Inr payload
   \<Longrightarrow> makeRequest w client ''POST''
         (''/workspaces/'' @ Sprintf_d workspaceID @ ''/time_entries'') (Some payload)
        = (sent, Inr resp)
   \<Longrightarrow> decodeResponse (Unmarshal_TimeEntry w) zero_TimeEntry resp = (v, Some err)
   \<Longrightarrow> errors_As_APIError err = Some (status, body)
   \<Longrightarrow> handleStartTimeEntry w client args
        = (sent, Inr \<lparr>Text = ''Failed to start time entry: '' @ APIError_Error status body,
                      IsError = True\<rparr>)"
  by (simp add: handleStartTimeEntry_def NewToolResultError_def Let_def)

lemma handleStopTimeEntry_stop_APIError:
  "getRequiredNumber (Float64_overflow w) args ''workspace_id'' = Inr workspaceID
   \<Longrightarrow> makeRequest w client ''GET'' ''/me/time_entries/current'' None = (sent, Inr resp)
   \<Longrightarrow> StatusCode resp \<noteq> 404
   \<Longrightarrow> decodeResponse (Unmarshal_TimeEntry w) zero_TimeEntry resp = (current, None)
   \<Longrightarrow> makeRequest w client ''PATCH''
         (''/workspaces/'' @ Sprintf_d workspaceID @ ''/time_entries/''
          @ Sprintf_d (ID current) @ ''/stop'') None = (sent2, Inr stopResp)
   \<Longrightarrow> decodeResponse (Unmarshal_TimeEntry w) zero_TimeEntry stopResp = (v, Some err)
   \<Longrightarrow> errors_As_APIError err = Some (status, body)
   \<Longrightarrow> handleStopTimeEntry w client args
        = (sent @ sent2, Inr \<lparr>Text = ''Failed to stop time entry: '' @ APIError_Error status body,
                              IsError = True\<rparr>)"
  by (simp add: handleStopTimeEntry_def NewToolResultError_def)

lemma handleGetTimeEntries_APIError:
  "time_entries_endpoint (getOptionalString args ''start_date'')
      (getOptionalString args ''end_date'') = Inr endpoint
   \<Longrightarrow> makeRequest w client ''GET'' endpoint None = (sent, Inr resp)
   \<Longrightarrow> decodeResponse (Unmarshal_TimeEntries w) [] resp = (v, Some err)
   \<Longrightarrow> errors_As_APIError err = Some (status, body)
   \<Longrightarrow> handleGetTimeEntries w client args
        = (sent, Inr \<lparr>Text = ''Failed to get time entries: '' @ APIError_Error status body,
                      IsError = True\<rparr>)"
  by (simp add: handleGetTimeEntries_def NewToolResultError_def Let_def)

lemma handleCreateProject_APIError:
  "getRequiredString args ''name'' = Inr name
   \<Longrightarrow> getRequiredNumber (Float64_overflow w) args ''workspace_id'' = Inr workspaceID
   \<Longrightarrow> (\<And>project. Marshal_project w project = Inr (payload project))
   \<Longrightarrow> (\<And>p. makeRequest w client ''POST''
         (''/workspaces/'' @ Sprintf_d workspaceID @ ''/projects'') (Some p) = (sent, Inr resp))
   \<Longrightarrow> decodeResponse (Unmarshal_Project w) zero_Project resp = (v, Some err)
   \<Longrightarrow> errors_As_APIError err = Some (status, body)
   \<Longrightarrow> handleCreateProject w client args
        = (sent, Inr \<lparr>Text = ''Failed to create project: '' @ APIError_Error status body,
                      IsError = True\<rparr>)"
  by (simp add: handleCreateProject_def NewToolResultError_def Let_def)

lemma handleGetProjects_APIError:
  "getRequiredNumber (Float64_overflow w) args ''workspace_id'' = Inr workspaceID
   \<Longrightarrow> makeRequest w client ''GET'' (projects_endpoint workspaceID args) None = (sent, Inr resp)
   \<Longrightarrow> decodeResponse (Unmarshal_Projects w) [] resp = (v, Some err)
   \<Longrightarrow> errors_As_APIError err = Some (status, body)
   \<Longrightarrow> handleGetProjects w client args
        = (sent, Inr \<lparr>Text = ''Failed to get projects: '' @ APIError_Error status body,
                      IsError = True\<rparr>)"
  by (simp add: handleGetProjects_def NewToolResultError_def)

text \<open>
  C1. In \<^verbatim>\<open>stop_time_entry\<close> the lookup of the current entry does not follow the policy:
  when its decode yields an \<^verbatim>\<open>APIError\<close> (any status outside [200,300) other than 404),
  the handler returns the hard error \<^verbatim>\<open>parsing current entry: ...\<close>, where
  \<^verbatim>\<open>get_current_time_entry\<close>, on the same answer to the same lookup, returns the
  flagged result the claim describes.
\<close>

theorem stop_lookup_APIError_is_hard_error:
  "args ''workspace_id'' = Some (VFloat64 x)
   \<Longrightarrow> makeRequest w client ''GET'' ''/me/time_entries/current'' None = (sent, Inr resp)
   \<Longrightarrow> StatusCode resp \<noteq> 404
   \<Longrightarrow> decodeResponse (Unmarshal_TimeEntry w) zero_TimeEntry resp = (v, Some err)
   \<Longrightarrow> errors_As_APIError err = Some (status, body)
   \<Longrightarrow> handleStopTimeEntry w client args = (sent, Inl (Wrapped ''parsing current entry'' err))
       \<and> handleGetCurrentTimeEntry w client args
           = (sent, Inr \<lparr>Text = ''Failed to get current entry: '' @ APIError_Error status body,
                         IsError = True\<rparr>)"
  by (simp add: handleStopTimeEntry_def handleGetCurrentTimeEntry_def getRequiredNumber_def
        NewToolResultError_def)

theorem stop_lookup_APIError_is_hard_error_witness:
  "handleStopTimeEntry (test_world (answer_with 500 ''Internal Server Error'')) test_client
        [''workspace_id'' \<mapsto> VFloat64 456]
     = ([current_lookup],
        Inl (Wrapped ''parsing current entry'' (APIError 500 ''Internal Server Error'')))
   \<and> handleGetCurrentTimeEntry (test_world (answer_with 500 ''Internal Server Error'')) test_client
        [''workspace_id'' \<mapsto> VFloat64 456]
     = ([current_lookup],
        Inr \<lparr>Text = ''Failed to get current entry: API error (status 500): Internal Server Error'',
             IsError = True\<rparr>)"
proof -
  let ?w = "test_world (answer_with 500 ''Internal Server Error'')"
  let ?resp = "\<lparr>StatusCode = 500, Body = Readable ''Internal Server Error''\<rparr>"
  let ?args = "[''workspace_id'' \<mapsto> VFloat64 456]"
  have a: "?args ''workspace_id'' = Some (VFloat64 456)" by simp
  have m: "makeRequest ?w test_client ''GET'' ''/me/time_entries/current'' None
             = ([current_lookup], Inr ?resp)"
    by (rule test_world_current_lookup)
  have s: "StatusCode ?resp \<noteq> 404" by simp
  have d: "decodeResponse (Unmarshal_TimeEntry ?w) zero_TimeEntry ?resp
             = (zero_TimeEntry, Some (APIError 500 ''Internal Server Error''))"
    by (simp add: decodeResponse_def)
  have e: "errors_As_APIError (APIError 500 ''Internal Server Error'')
             = Some (500, ''Internal Server Error'')" by simp
  have t: "APIError_Error 500 ''Internal Server Error''
             = ''API error (status 500): Internal Server Error''"
    by (simp add: APIError_Error_def Sprintf_d_def nat_decimal.simps digit_char_def)
  have "handleStopTimeEntry ?w test_client ?args
          = ([current_lookup], Inl (Wrapped ''parsing current entry''
               (APIError 500 ''Internal Server Error'')))
        \<and> handleGetCurrentTimeEntry ?w test_client ?args
          = ([current_lookup],
             Inr \<lparr>Text = ''Failed to get current entry: ''
                           @ APIError_Error 500 ''Internal Server Error'',
                  IsError = True\<rparr>)"
    using a m s d e
    by (rule stop_lookup_APIError_is_hard_error
          [where args = ?args and x = 456 and w = ?w and client = test_client
             and sent = "[current_lookup]" and resp = ?resp and v = zero_TimeEntry
             and err = "APIError 500 ''Internal Server Error''" and status = 500
             and body = "''Internal Server Error''"])
  then show ?thesis unfolding t by simp
qed

lemma projects_endpoint_non_bool:
  "args ''active'' = Some v \<Longrightarrow> \<not> is_bool v \<Longrightarrow>
   projects_endpoint wid args = ''/workspaces/'' @ Sprintf_d wid @ ''/projects''"
  by (cases v) (simp_all add: projects_endpoint_def is_bool_def)

lemma projects_endpoint_absent:
  "args ''active'' = None \<Longrightarrow>
   projects_endpoint wid args = ''/workspaces/'' @ Sprintf_d wid @ ''/projects''"
  by (simp add: projects_endpoint_def)

text \<open>
  C10. When the key \<^verbatim>\<open>active\<close> is present with a value that is no boolean,
  \<^verbatim>\<open>get_projects\<close> behaves as on the same map without the key: the same requests and
  the same outcome. With a workspace id given, the request goes to the endpoint without
  a query.
\<close>

theorem get_projects_ignores_non_boolean_active:
  "args ''active'' = Some v \<Longrightarrow> \<not> is_bool v
   \<Longrightarrow> handleGetProjects w client args = handleGetProjects w client (args(''active'' := None))
       \<and> (\<forall>x. args ''workspace_id'' = Some (VFloat64 x) \<longrightarrow>
             fst (handleGetProjects w client args)
               = fst (makeRequest w client ''GET''
                        (''/workspaces/'' @ Sprintf_d (int_of_float64 (Float64_overflow w) x)
                         @ ''/projects'') None))"
proof -
  assume a: "args ''active'' = Some v" and b: "\<not> is_bool v"
  have e1: "\<And>wid. projects_endpoint wid args = ''/workspaces/'' @ Sprintf_d wid @ ''/projects''"
    using a b by (rule projects_endpoint_non_bool)
  have e2: "\<And>wid. projects_endpoint wid (args(''active'' := None))
                  = ''/workspaces/'' @ Sprintf_d wid @ ''/projects''"
    by (rule projects_endpoint_absent) simp
  have n: "getRequiredNumber (Float64_overflow w) (args(''active'' := None)) ''workspace_id''
             = getRequiredNumber (Float64_overflow w) args ''workspace_id''"
    by (simp add: getRequiredNumber_def)
  have same: "handleGetProjects w client args = handleGetProjects w client (args(''active'' := None))"
    unfolding handleGetProjects_def n e1 e2 ..
  have req: "\<forall>x. args ''workspace_id'' = Some (VFloat64 x) \<longrightarrow>
             fst (handleGetProjects w client args)
               = fst (makeRequest w client ''GET''
                        (''/workspaces/'' @ Sprintf_d (int_of_float64 (Float64_overflow w) x)
                         @ ''/projects'') None)"
    unfolding handleGetProjects_def e1
    by (auto simp: getRequiredNumber_def split: prod.splits sum.splits option.splits)
  show ?thesis using same req by (intro conjI)
qed

theorem get_projects_ignores_non_boolean_active_witness:
  "handleGetProjects (test_world (answer_with 200 ''[]'')) test_client
      [''workspace_id'' \<mapsto> VFloat64 456, ''active'' \<mapsto> VString ''true'']
    = handleGetProjects (test_world (answer_with 200 ''[]'')) test_client
        [''workspace_id'' \<mapsto> VFloat64 456]
   \<and> handleGetProjects (test_world (answer_with 200 ''[]'')) test_client
        [''workspace_id'' \<mapsto> VFloat64 456]
      = ([plain_projects_request], Inr \<lparr>Text = ''Found 0 projects:\<newline>'', IsError = False\<rparr>)"
proof -
  let ?w = "test_world (answer_with 200 ''[]'')"
  let ?args = "[''workspace_id'' \<mapsto> VFloat64 456, ''active'' \<mapsto> VString ''true'']"
  have a: "?args ''active'' = Some (VString ''true'')" by simp
  have b: "\<not> is_bool (VString ''true'')" by (simp add: is_bool_def)
  have u: "?args(''active'' := None) = [''workspace_id'' \<mapsto> VFloat64 456]"
    by (rule ext) simp
  have "handleGetProjects ?w test_client ?args
          = handleGetProjects ?w test_client (?args(''active'' := None))"
    using get_projects_ignores_non_boolean_active
            [where args = ?args and v = "VString ''true''" and w = ?w and client = test_client]
          a b
    by blast
  then have same: "handleGetProjects ?w test_client ?args
                = handleGetProjects ?w test_client [''workspace_id'' \<mapsto> VFloat64 456]"
    unfolding u .
  have t: "trunc_toward_zero 456 = 456" by (simp add: trunc_toward_zero_def)
  have i: "int_of_float64 imp 456 = 456" for imp
    by (simp add: int_of_float64_def t fits_int_def)
  have d: "Sprintf_d 456 = ''456''" "Sprintf_d 0 = ''0''"
    by (simp_all add: Sprintf_d_def nat_decimal.simps digit_char_def)
  have g: "getRequiredNumber (Float64_overflow ?w) [''workspace_id'' \<mapsto> VFloat64 456]
             ''workspace_id'' = Inr 456"
    by (simp add: getRequiredNumber_def i)
  have ep: "projects_endpoint 456 [''workspace_id'' \<mapsto> VFloat64 456]
              = ''/workspaces/456/projects''"
    by (simp add: projects_endpoint_def d)
  have m: "makeRequest ?w test_client ''GET'' ''/workspaces/456/projects'' None
             = ([plain_projects_request], Inr \<lparr>StatusCode = 200, Body = Readable ''[]''\<rparr>)"
    by (simp add: test_world_makeRequest answer_with_def togglAPIBase_def
          plain_projects_request_def)
  have dec: "decodeResponse (Unmarshal_Projects ?w) []
               \<lparr>StatusCode = 200, Body = Readable ''[]''\<rparr> = ([], None)"
    by (simp add: decodeResponse_def test_world_def)
  have run: "handleGetProjects ?w test_client [''workspace_id'' \<mapsto> VFloat64 456]
      = ([plain_projects_request], Inr \<lparr>Text = ''Found 0 projects:\<newline>'', IsError = False\<rparr>)"
    by (simp add: handleGetProjects_def g ep m dec NewToolResultText_def d)
  show ?thesis using same run by (intro conjI)
qed

section \<open>Properties of dates and of the time entry queries\<close>

lemma step_div:
  "0 < n \<Longrightarrow> (y + n) div n = (y + (n - 1)) div n + (if y mod n = 0 then 1 else 0)"
  for y n :: int
proof -
  assume n: "0 < n"
  define q where "q = y div n"
  define r where "r = y mod n"
  have y: "y = n * q + r" by (simp add: q_def r_def)
  have r: "0 \<le> r" "r < n" using n by (simp_all add: r_def)
  have up: "(y + n) div n = q + 1"
    using n by (simp add: q_def)
  show ?thesis
  proof (cases "r = 0")
    case True
    have "y + (n - 1) = n * q + (n - 1)" using y True by simp
    then have "(y + (n - 1)) div n = q"
      using n by (intro int_div_pos_eq [where r = "n - 1"]) simp_all
    then show ?thesis using up True by (simp add: r_def)
  next
    case False
    have "y + (n - 1) = n * (q + 1) + (r - 1)" using y by (simp add: algebra_simps)
    then have "(y + (n - 1)) div n = q + 1"
      using r False by (intro int_div_pos_eq [where r = "r - 1"]) simp_all
    then show ?thesis using up False by (simp add: r_def)
  qed
qed

lemma step4: "(y + 4) div 4 = (y + 3) div 4 + (if y mod 4 = 0 then 1 else 0)" for y :: int
  using step_div [of 4 y] by simp

lemma step100: "(y + 100) div 100 = (y + 99) div 100 + (if y mod 100 = 0 then 1 else 0)" for y :: int
  using step_div [of 100 y] by simp

lemma step400: "(y + 400) div 400 = (y + 399) div 400 + (if y mod 400 = 0 then 1 else 0)" for y :: int
  using step_div [of 400 y] by simp

lemma mod_400_100: "y mod 400 = 0 \<Longrightarrow> y mod 100 = 0" for y :: int
  by presburger

lemma mod_100_4: "y mod 100 = 0 \<Longrightarrow> y mod 4 = 0" for y :: int
  by presburger

lemma days_before_next_year:
  "days_before_year (y + 1) = days_before_year y + 365 + (if isLeap y then 1 else 0)"
proof -
  define a where "a \<longleftrightarrow> y mod 4 = 0"
  define b where "b \<longleftrightarrow> y mod 100 = 0"
  define c where "c \<longleftrightarrow> y mod 400 = 0"
  have s4: "(y + 4) div 4 = (y + 3) div 4 + (if a then 1 else 0)"
    unfolding a_def by (rule step4)
  have s100: "(y + 100) div 100 = (y + 99) div 100 + (if b then 1 else 0)"
    unfolding b_def by (rule step100)
  have s400: "(y + 400) div 400 = (y + 399) div 400 + (if c then 1 else 0)"
    unfolding c_def by (rule step400)
  have cb: "c \<Longrightarrow> b" unfolding b_def c_def by (rule mod_400_100)
  have ba: "b \<Longrightarrow> a" unfolding a_def b_def by (rule mod_100_4)
  have leap: "isLeap y \<longleftrightarrow> a \<and> (\<not> b \<or> c)"
    unfolding isLeap_def a_def b_def c_def ..
  have n: "y + 1 + 3 = y + 4" "y + 1 + 99 = y + 100" "y + 1 + 399 = y + 400" by simp_all
  show ?thesis
    unfolding days_before_year_def n s4 s100 s400 leap
    using cb ba by (cases a; cases b; cases c; simp)
qed

lemma days_before_month_Suc:
  "1 \<le> m \<Longrightarrow> days_before_month (m + 1) y = days_before_month m y + daysIn m y"
proof -
  assume m: "1 \<le> m"
  have "[1..m] = [1..m - 1] @ [m]" using m by (simp add: upto_rec2)
  then show ?thesis by (simp add: days_before_month_def)
qed

lemma days_before_month_1: "days_before_month 1 y = 0"
  by (simp add: days_before_month_def)

lemma upto_1_11: "[1..11::int] = [1, 2, 3, 4, 5, 6, 7, 8, 9, 10, 11]"
  by (simp add: upto.simps)

lemma days_in_year: "days_before_month 12 y + 31 = 365 + (if isLeap y then 1 else 0)"
  by (simp add: days_before_month_def daysIn_def upto_1_11)

lemma AddDate_one_day_next:
  "valid_date t \<Longrightarrow> day_number (AddDate_one_day t) = day_number t + 1 \<and> valid_date (AddDate_one_day t)"
proof -
  assume v: "valid_date t"
  obtain y m d where t: "t = (y, m, d)" by (cases t)
  have y: "0 \<le> y" and m: "1 \<le> m" "m \<le> 12" and d: "1 \<le> d" "d \<le> daysIn m y"
    using v by (simp_all add: valid_date_def t)
  have pos: "1 \<le> daysIn k z" for k z by (simp add: daysIn_def)
  show ?thesis
  proof (cases "d + 1 \<le> daysIn m y")
    case True
    then show ?thesis
      using y m d by (simp add: t AddDate_one_day_def day_number_def valid_date_def)
  next
    case False
    then have last: "d = daysIn m y" using d by simp
    show ?thesis
    proof (cases "m < 12")
      case True
      then show ?thesis
        using False y m pos [of "m + 1" y]
        by (simp add: t AddDate_one_day_def day_number_def valid_date_def last
              days_before_month_Suc)
    next
      case False
      then have m12: "m = 12" using m by simp
      have d31: "d = 31" using last by (simp add: m12 daysIn_def)
      show ?thesis
        using y days_in_year [of y] days_before_next_year [of y]
        by (simp add: t AddDate_one_day_def day_number_def valid_date_def m12 d31
              days_before_month_1 daysIn_def)
    qed
  qed
qed

lemma isDigit_range: "isDigit c \<Longrightarrow> 0 \<le> digit_value c \<and> digit_value c \<le> 9"
  by (auto simp: isDigit_def digit_value_def)

lemma time_Parse_date_shape:
  "time_Parse_date d = Inr t \<Longrightarrow>
   \<exists>y1 y2 y3 y4 m1 m2 d1 d2.
     d = [y1, y2, y3, y4, CHR ''-'', m1, m2, CHR ''-'', d1, d2]
     \<and> isDigit y1 \<and> isDigit y2 \<and> isDigit y3 \<and> isDigit y4
     \<and> isDigit m1 \<and> isDigit m2 \<and> isDigit d1 \<and> isDigit d2
     \<and> t = (1000 * digit_value y1 + 100 * digit_value y2 + 10 * digit_value y3 + digit_value y4,
            10 * digit_value m1 + digit_value m2, 10 * digit_value d1 + digit_value d2)
     \<and> 1 \<le> 10 * digit_value m1 + digit_value m2 \<and> 10 * digit_value m1 + digit_value m2 \<le> 12
     \<and> 1 \<le> 10 * digit_value d1 + digit_value d2
     \<and> 10 * digit_value d1 + digit_value d2
          \<le> daysIn (10 * digit_value m1 + digit_value m2)
               (1000 * digit_value y1 + 100 * digit_value y2 + 10 * digit_value y3 + digit_value y4)"
  unfolding time_Parse_date_def Let_def
  by (simp split: list.splits if_splits)

lemma time_Parse_date_valid:
  "time_Parse_date d = Inr t \<Longrightarrow> valid_date t \<and> fst t \<le> 9999"
proof -
  assume p: "time_Parse_date d = Inr t"
  from time_Parse_date_shape [OF p] obtain y1 y2 y3 y4 m1 m2 d1 d2 where
    dig: "isDigit y1" "isDigit y2" "isDigit y3" "isDigit y4"
    and t: "t = (1000 * digit_value y1 + 100 * digit_value y2 + 10 * digit_value y3 + digit_value y4,
            10 * digit_value m1 + digit_value m2, 10 * digit_value d1 + digit_value d2)"
    and m: "1 \<le> 10 * digit_value m1 + digit_value m2" "10 * digit_value m1 + digit_value m2 \<le> 12"
    and dd: "1 \<le> 10 * digit_value d1 + digit_value d2"
       "10 * digit_value d1 + digit_value d2
          \<le> daysIn (10 * digit_value m1 + digit_value m2)
               (1000 * digit_value y1 + 100 * digit_value y2 + 10 * digit_value y3 + digit_value y4)"
    by blast
  have b: "0 \<le> digit_value y1 \<and> digit_value y1 \<le> 9" "0 \<le> digit_value y2 \<and> digit_value y2 \<le> 9"
     "0 \<le> digit_value y3 \<and> digit_value y3 \<le> 9" "0 \<le> digit_value y4 \<and> digit_value y4 \<le> 9"
    using dig by (simp_all add: isDigit_range)
  show ?thesis
    using b m dd unfolding t valid_date_def by simp
qed

lemma digit_char_cases:
  "k < 10 \<Longrightarrow> k = 0 \<or> k = 1 \<or> k = 2 \<or> k = 3 \<or> k = 4 \<or> k = 5 \<or> k = 6 \<or> k = 7 \<or> k = 8 \<or> k = (9::nat)"
  by arith

lemma digit_char_digit:
  "k < 10 \<Longrightarrow> isDigit (digit_char k) \<and> digit_value (digit_char k) = int k"
  using digit_char_cases [of k]
  by (auto simp: digit_char_def isDigit_def digit_value_def)

lemma nat_decimal_1: "n < 10 \<Longrightarrow> nat_decimal n = [digit_char n]"
  by (simp add: nat_decimal.simps)

lemma nat_decimal_2:
  "10 \<le> n \<Longrightarrow> n < 100 \<Longrightarrow> nat_decimal n = [digit_char (n div 10), digit_char (n mod 10)]"
  by (subst nat_decimal.simps) (simp add: nat_decimal_1)

lemma nat_decimal_3:
  "100 \<le> n \<Longrightarrow> n < 1000 \<Longrightarrow>
   nat_decimal n = [digit_char (n div 100), digit_char (n div 10 mod 10), digit_char (n mod 10)]"
  by (subst nat_decimal.simps) (simp add: nat_decimal_2 div_mult2_eq [symmetric])

lemma nat_decimal_4:
  "1000 \<le> n \<Longrightarrow> n < 10000 \<Longrightarrow>
   nat_decimal n = [digit_char (n div 1000), digit_char (n div 100 mod 10),
                    digit_char (n div 10 mod 10), digit_char (n mod 10)]"
  by (subst nat_decimal.simps) (simp add: nat_decimal_3 div_mult2_eq [symmetric])

lemma digit_char_0: "digit_char 0 = CHR ''0''"
  by (simp add: digit_char_def)

lemma replicate_small:
  "replicate (Suc 0) c = [c]" "replicate 2 c = [c, c]" "replicate 3 c = [c, c, c]"
  by (simp_all add: numeral_2_eq_2 numeral_3_eq_3)

lemma zero_pad_2:
  "0 \<le> x \<Longrightarrow> x < 100 \<Longrightarrow>
   zero_pad 2 x = [digit_char (nat x div 10), digit_char (nat x mod 10)]"
proof -
  assume x: "0 \<le> x" "x < 100"
  show ?thesis
  proof (cases "nat x < 10")
    case True
    then show ?thesis using x by (simp add: zero_pad_def nat_decimal_1 digit_char_0)
  next
    case False
    then show ?thesis using x by (simp add: zero_pad_def nat_decimal_2)
  qed
qed

lemma zero_pad_4:
  "0 \<le> x \<Longrightarrow> x < 10000 \<Longrightarrow>
   zero_pad 4 x = [digit_char (nat x div 1000), digit_char (nat x div 100 mod 10),
                   digit_char (nat x div 10 mod 10), digit_char (nat x mod 10)]"
proof -
  assume x: "0 \<le> x" "x < 10000"
  consider "nat x < 10" | "10 \<le> nat x" "nat x < 100" | "100 \<le> nat x" "nat x < 1000"
    | "1000 \<le> nat x" "nat x < 10000"
    using x by linarith
  then show ?thesis
  proof cases
    case 1
    then show ?thesis using x
      by (simp add: zero_pad_def nat_decimal_1 digit_char_0 replicate_small)
  next
    case 2
    then show ?thesis using x
      by (simp add: zero_pad_def nat_decimal_2 digit_char_0 replicate_small)
  next
    case 3
    then show ?thesis using x
      by (simp add: zero_pad_def nat_decimal_3 digit_char_0 replicate_small)
  next
    case 4
    then show ?thesis using x
      by (simp add: zero_pad_def nat_decimal_4)
  qed
qed

lemma decimal_digits_2: "10 * (n div 10) + n mod 10 = n" for n :: nat
  by simp

lemma decimal_digits_4:
  "1000 * (n div 1000) + 100 * (n div 100 mod 10) + 10 * (n div 10 mod 10) + n mod 10 = n"
  for n :: nat
proof -
  have a: "n = 10 * (n div 10) + n mod 10" by simp
  have b: "n div 10 = 10 * (n div 100) + n div 10 mod 10"
    using div_mult_mod_eq [of "n div 10" 10] by (simp add: div_mult2_eq [symmetric])
  have c: "n div 100 = 10 * (n div 1000) + n div 100 mod 10"
    using div_mult_mod_eq [of "n div 100" 10] by (simp add: div_mult2_eq [symmetric])
  show ?thesis using a b c by linarith
qed

lemma time_Parse_date_digits:
  "isDigit y1 \<Longrightarrow> isDigit y2 \<Longrightarrow> isDigit y3 \<Longrightarrow> isDigit y4 \<Longrightarrow>
   isDigit m1 \<Longrightarrow> isDigit m2 \<Longrightarrow> isDigit d1 \<Longrightarrow> isDigit d2 \<Longrightarrow>
   1 \<le> 10 * digit_value m1 + digit_value m2 \<Longrightarrow> 10 * digit_value m1 + digit_value m2 \<le> 12 \<Longrightarrow>
   1 \<le> 10 * digit_value d1 + digit_value d2 \<Longrightarrow>
   10 * digit_value d1 + digit_value d2
      \<le> daysIn (10 * digit_value m1 + digit_value m2)
           (1000 * digit_value y1 + 100 * digit_value y2 + 10 * digit_value y3 + digit_value y4) \<Longrightarrow>
   time_Parse_date [y1, y2, y3, y4, CHR ''-'', m1, m2, CHR ''-'', d1, d2]
     = Inr (1000 * digit_value y1 + 100 * digit_value y2 + 10 * digit_value y3 + digit_value y4,
            10 * digit_value m1 + digit_value m2, 10 * digit_value d1 + digit_value d2)"
  unfolding time_Parse_date_def Let_def by simp

lemma daysIn_le_31: "daysIn m y \<le> 31"
  by (simp add: daysIn_def)

lemma Format_Parse_roundtrip:
  "valid_date t \<Longrightarrow> fst t \<le> 9999 \<Longrightarrow> time_Parse_date (Format_date t) = Inr t"
proof -
  assume v: "valid_date t" and hi: "fst t \<le> 9999"
  obtain y m d where t: "t = (y, m, d)" by (cases t)
  have y: "0 \<le> y" "y < 10000" and m: "1 \<le> m" "m \<le> 12" and d: "1 \<le> d" "d \<le> daysIn m y"
    using v hi by (simp_all add: valid_date_def t)
  have d31: "d < 100" using d daysIn_le_31 [of m y] by linarith
  define n where "n = nat y"
  define k where "k = nat m"
  define j where "j = nat d"
  have n: "n < 10000" "int n = y" using y by (simp_all add: n_def)
  have k: "k < 100" "int k = m" using m by (simp_all add: k_def)
  have j: "j < 100" "int j = d" using d d31 by (simp_all add: j_def)
  have fy: "zero_pad 4 y = [digit_char (n div 1000), digit_char (n div 100 mod 10),
                            digit_char (n div 10 mod 10), digit_char (n mod 10)]"
    unfolding n_def using y by (rule zero_pad_4)
  have fm: "zero_pad 2 m = [digit_char (k div 10), digit_char (k mod 10)]"
    unfolding k_def using m by (intro zero_pad_2) simp_all
  have fd: "zero_pad 2 d = [digit_char (j div 10), digit_char (j mod 10)]"
    unfolding j_def using d d31 by (intro zero_pad_2) simp_all
  have F: "Format_date t =
     [digit_char (n div 1000), digit_char (n div 100 mod 10),
      digit_char (n div 10 mod 10), digit_char (n mod 10), CHR ''-'',
      digit_char (k div 10), digit_char (k mod 10), CHR ''-'',
      digit_char (j div 10), digit_char (j mod 10)]"
    by (simp add: Format_date_def t fy fm fd)
  have q: "n div 1000 < 10" "n div 100 mod 10 < 10" "n div 10 mod 10 < 10" "n mod 10 < 10"
      "k div 10 < 10" "k mod 10 < 10" "j div 10 < 10" "j mod 10 < 10"
    using n k j by simp_all
  note dg = q [THEN digit_char_digit]
  have yv: "1000 * int (n div 1000) + 100 * int (n div 100 mod 10)
            + 10 * int (n div 10 mod 10) + int (n mod 10) = y"
    using decimal_digits_4 [of n] n(2) by linarith
  have mv: "10 * int (k div 10) + int (k mod 10) = m"
    using decimal_digits_2 [of k] k(2) by linarith
  have dv: "10 * int (j div 10) + int (j mod 10) = d"
    using decimal_digits_2 [of j] j(2) by linarith
  have "time_Parse_date (Format_date t)
     = Inr (1000 * digit_value (digit_char (n div 1000))
              + 100 * digit_value (digit_char (n div 100 mod 10))
              + 10 * digit_value (digit_char (n div 10 mod 10))
              + digit_value (digit_char (n mod 10)),
            10 * digit_value (digit_char (k div 10)) + digit_value (digit_char (k mod 10)),
            10 * digit_value (digit_char (j div 10)) + digit_value (digit_char (j mod 10)))"
    unfolding F
    by (rule time_Parse_date_digits) (simp_all add: dg yv mv dv m d)
  then show ?thesis
    by (simp add: dg yv mv dv t)
qed

lemma time_Parse_date_nonempty: "time_Parse_date d = Inr t \<Longrightarrow> d \<noteq> []"
  by (auto simp: time_Parse_date_def)

lemma getOptionalString_VString: "args k = Some (VString s) \<Longrightarrow> getOptionalString args k = s"
  by (simp add: getOptionalString_def)

lemma isDigit_unreserved: "isDigit c \<Longrightarrow> unreserved c"
  by (simp add: isDigit_def unreserved_def Let_def)

lemma hyphen_unreserved: "unreserved CHR ''-''"
  by (simp add: unreserved_def Let_def)

lemma QueryEscape_date: "time_Parse_date d = Inr t \<Longrightarrow> QueryEscape d = d"
proof -
  assume p: "time_Parse_date d = Inr t"
  from time_Parse_date_shape [OF p] obtain y1 y2 y3 y4 m1 m2 d1 d2 where
    d: "d = [y1, y2, y3, y4, CHR ''-'', m1, m2, CHR ''-'', d1, d2]"
    and dig: "isDigit y1" "isDigit y2" "isDigit y3" "isDigit y4"
             "isDigit m1" "isDigit m2" "isDigit d1" "isDigit d2"
    by blast
  show ?thesis
    unfolding d using dig [THEN isDigit_unreserved] hyphen_unreserved by simp
qed

lemma QueryEscape_keys:
  "QueryEscape ''start_date'' = ''start_date''" "QueryEscape ''end_date'' = ''end_date''"
  by (simp_all add: unreserved_def Let_def)

lemma Values_Encode_range:
  "Values_Encode [(''start_date'', s), (''end_date'', e)]
     = ''end_date='' @ QueryEscape e @ ''&start_date='' @ QueryEscape s"
proof -
  have srt: "sort_by_key [(''start_date'', s), (''end_date'', e)]
               = [(''end_date'', e), (''start_date'', s)]"
    by (simp add: sort_by_key_def)
  have "Values_Encode [(''start_date'', s), (''end_date'', e)]
          = QueryEscape ''end_date'' @ ''='' @ QueryEscape e @ ''&''
            @ QueryEscape ''start_date'' @ ''='' @ QueryEscape s"
    unfolding Values_Encode_def srt by (simp del: QueryEscape.simps)
  then show ?thesis
    unfolding QueryEscape_keys by (simp del: QueryEscape.simps)
qed

lemma time_entries_endpoint_range:
  "time_Parse_date s = Inr ts \<Longrightarrow> time_Parse_date e = Inr te \<Longrightarrow>
   time_entries_endpoint s e = Inr (''/me/time_entries?end_date='' @ e @ ''&start_date='' @ s)"
proof -
  assume s: "time_Parse_date s = Inr ts" and e: "time_Parse_date e = Inr te"
  have ne: "s \<noteq> []" "e \<noteq> []" using s e by (auto dest: time_Parse_date_nonempty)
  show ?thesis
    using ne
    by (simp add: time_entries_endpoint_def s e Values_Encode_range
          QueryEscape_date [OF s] QueryEscape_date [OF e])
qed

lemma time_entries_endpoint_bad_start:
  "s \<noteq> [] \<Longrightarrow> time_Parse_date s = Inl err \<Longrightarrow>
   time_entries_endpoint s e = Inl (Wrapped ''invalid start_date format (use YYYY-MM-DD)'' err)"
  by (simp add: time_entries_endpoint_def)

lemma time_entries_endpoint_bad_end:
  "e \<noteq> [] \<Longrightarrow> time_Parse_date e = Inl err \<Longrightarrow> \<exists>err'. time_entries_endpoint s e = Inl err'"
  by (cases "time_Parse_date s") (simp_all add: time_entries_endpoint_def)

lemma Sprintf_d_0: "Sprintf_d 0 = ''0''"
  by (simp add: Sprintf_d_def nat_decimal.simps digit_char_def)

lemma parse_2025_01_31: "time_Parse_date ''2025-01-31'' = Inr (2025, 1, 31)"
  by (simp add: time_Parse_date_def isDigit_def digit_value_def daysIn_def isLeap_def)

lemma parse_2025_01_15: "time_Parse_date ''2025-01-15'' = Inr (2025, 1, 15)"
  by (simp add: time_Parse_date_def isDigit_def digit_value_def daysIn_def isLeap_def)

lemma parse_15_01_2025: "time_Parse_date ''15-01-2025'' = Inl (time_ParseError ''15-01-2025'')"
  by (simp add: time_Parse_date_def isDigit_def)

lemma next_2025_01_31: "Format_date (AddDate_one_day (2025, 1, 31)) = ''2025-02-01''"
  by (simp add: AddDate_one_day_def daysIn_def Format_date_def zero_pad_def
        nat_decimal.simps digit_char_def replicate_small)

lemma next_2025_01_15: "Format_date (AddDate_one_day (2025, 1, 15)) = ''2025-01-16''"
  by (simp add: AddDate_one_day_def daysIn_def Format_date_def zero_pad_def
        nat_decimal.simps digit_char_def replicate_small)

lemma handleGetTimeEntries_depends_on_dates:
  "getOptionalString a ''start_date'' = getOptionalString b ''start_date''
   \<Longrightarrow> getOptionalString a ''end_date'' = getOptionalString b ''end_date''
   \<Longrightarrow> handleGetTimeEntries w client a = handleGetTimeEntries w client b"
  by (simp add: handleGetTimeEntries_def)

lemma handleGetTimeEntriesForDay_valid:
  "args ''date'' = Some (VString d) \<Longrightarrow> time_Parse_date d = Inr t \<Longrightarrow>
   handleGetTimeEntriesForDay w client args
     = (args(''start_date'' \<mapsto> VString d,
             ''end_date'' \<mapsto> VString (Format_date (AddDate_one_day t))),
        handleGetTimeEntries w client
          (args(''start_date'' \<mapsto> VString d,
                ''end_date'' \<mapsto> VString (Format_date (AddDate_one_day t)))))"
  by (frule time_Parse_date_nonempty)
     (simp add: handleGetTimeEntriesForDay_def getRequiredString_def Let_def)

lemma handleGetTimeEntries_bad_date:
  "(\<exists>s. args ''start_date'' = Some (VString s) \<and> s \<noteq> [] \<and> (\<exists>e. time_Parse_date s = Inl e))
   \<or> (\<exists>s. args ''end_date'' = Some (VString s) \<and> s \<noteq> [] \<and> (\<exists>e. time_Parse_date s = Inl e))
   \<Longrightarrow> \<exists>err. handleGetTimeEntries w client args = ([], Inl err)"
proof (elim disjE exE conjE)
  fix s e
  assume a: "args ''start_date'' = Some (VString s)" and n: "s \<noteq> []"
    and p: "time_Parse_date s = Inl e"
  have g: "getOptionalString args ''start_date'' = s" using a by (simp add: getOptionalString_def)
  show ?thesis
    unfolding handleGetTimeEntries_def g Let_def
      time_entries_endpoint_bad_start [OF n p] by simp
next
  fix s e
  assume a: "args ''end_date'' = Some (VString s)" and n: "s \<noteq> []"
    and p: "time_Parse_date s = Inl e"
  have g: "getOptionalString args ''end_date'' = s" using a by (simp add: getOptionalString_def)
  obtain err' where b: "time_entries_endpoint (getOptionalString args ''start_date'') s = Inl err'"
    using time_entries_endpoint_bad_end [OF n p] by blast
  show ?thesis
    unfolding handleGetTimeEntries_def g Let_def b by simp
qed

lemma handleGetTimeEntries_same_date:
  "args ''start_date'' = Some (VString d) \<Longrightarrow> args ''end_date'' = Some (VString d)
   \<Longrightarrow> time_Parse_date d = Inr t
   \<Longrightarrow> makeRequest w client ''GET''
         (''/me/time_entries?end_date='' @ d @ ''&start_date='' @ d) None = (sent, Inr resp)
   \<Longrightarrow> decodeResponse (Unmarshal_TimeEntries w) [] resp = ([], None)
   \<Longrightarrow> handleGetTimeEntries w client args
        = (sent, Inr \<lparr>Text =
             ''Found 0 time entries:\<newline>''
             @ ''\<newline>No time entries found. This could be because:\<newline>''
             @ ''- No time entries exist in the specified date range\<newline>''
             @ ''- You need to specify a date range (start_date, end_date)\<newline>''
             @ ''- The default query only returns recent entries\<newline>''
             @ ''\<newline>'' @ [CHR 0xE2, CHR 0x9A, CHR 0xA0, CHR 0xEF, CHR 0xB8, CHR 0x8F]
             @ ''  LIKELY ISSUE: You used the same date for start_date and end_date!\<newline>''
             @ ''To get entries for '' @ d @ '', use:\<newline>''
             @ ''  start_date: '' @ d @ ''\<newline>''
             @ ''  end_date: '' @ Format_date (AddDate_one_day t) @ ''\<newline>''
             @ ''OR use the 'get_time_entries_for_day' tool with date: '' @ d @ ''\<newline>'',
           IsError = False\<rparr>)"
proof -
  assume s: "args ''start_date'' = Some (VString d)" and e: "args ''end_date'' = Some (VString d)"
    and p: "time_Parse_date d = Inr t"
    and m: "makeRequest w client ''GET''
         (''/me/time_entries?end_date='' @ d @ ''&start_date='' @ d) None = (sent, Inr resp)"
    and dec: "decodeResponse (Unmarshal_TimeEntries w) [] resp = ([], None)"
  have gs: "getOptionalString args ''start_date'' = d"
    using s by (simp add: getOptionalString_def)
  have ge: "getOptionalString args ''end_date'' = d"
    using e by (simp add: getOptionalString_def)
  have ne: "d \<noteq> []" using p by (rule time_Parse_date_nonempty)
  have ep: "time_entries_endpoint d d
              = Inr (''/me/time_entries?end_date='' @ d @ ''&start_date='' @ d)"
    using p p by (rule time_entries_endpoint_range)
  have body_text: "time_entries_text d d [] =
             ''Found 0 time entries:\<newline>''
             @ ''\<newline>No time entries found. This could be because:\<newline>''
             @ ''- No time entries exist in the specified date range\<newline>''
             @ ''- You need to specify a date range (start_date, end_date)\<newline>''
             @ ''- The default query only returns recent entries\<newline>''
             @ ''\<newline>'' @ [CHR 0xE2, CHR 0x9A, CHR 0xA0, CHR 0xEF, CHR 0xB8, CHR 0x8F]
             @ ''  LIKELY ISSUE: You used the same date for start_date and end_date!\<newline>''
             @ ''To get entries for '' @ d @ '', use:\<newline>''
             @ ''  start_date: '' @ d @ ''\<newline>''
             @ ''  end_date: '' @ Format_date (AddDate_one_day t) @ ''\<newline>''
             @ ''OR use the 'get_time_entries_for_day' tool with date: '' @ d @ ''\<newline>''"
    using ne by (simp add: time_entries_text_def same_date_warning_def p Sprintf_d_0)
  show ?thesis
    by (simp only: handleGetTimeEntries_def gs ge Let_def ep sum.case m prod.case dec
          option.case NewToolResultText_def body_text)
qed

text \<open>
  C5. For every date string \<^verbatim>\<open>d\<close> that \<^verbatim>\<open>time.Parse\<close> accepts,
  \<^verbatim>\<open>get_time_entries_for_day\<close> called with \<^verbatim>\<open>date = d\<close> hands the same requests to the
  transport and returns the same outcome as \<^verbatim>\<open>get_time_entries\<close> called with
  \<^verbatim>\<open>start_date = d\<close> and, as \<^verbatim>\<open>end_date\<close>, the formatted day after \<^verbatim>\<open>d\<close>. That day
  is the next calendar day (its day number is one more, across month and year ends); as
  long as its year has four digits the formatted end date reads back as that day and the
  request is \<^verbatim>\<open>GET /me/time_entries?end_date=...&start_date=d\<close>. The day after
  2025-01-31 is 2025-02-01.
\<close>

theorem day_query_is_range_query:
  "args ''date'' = Some (VString d) \<Longrightarrow> time_Parse_date d = Inr t
   \<Longrightarrow> args' ''start_date'' = Some (VString d)
   \<Longrightarrow> args' ''end_date'' = Some (VString (Format_date (AddDate_one_day t)))
   \<Longrightarrow> snd (handleGetTimeEntriesForDay w client args) = handleGetTimeEntries w client args'
       \<and> day_number (AddDate_one_day t) = day_number t + 1
       \<and> (fst (AddDate_one_day t) \<le> 9999 \<longrightarrow>
             time_Parse_date (Format_date (AddDate_one_day t)) = Inr (AddDate_one_day t)
             \<and> fst (handleGetTimeEntries w client args')
                 = fst (makeRequest w client ''GET''
                          (''/me/time_entries?end_date='' @ Format_date (AddDate_one_day t)
                           @ ''&start_date='' @ d) None))
       \<and> time_Parse_date ''2025-01-31'' = Inr (2025, 1, 31)
       \<and> Format_date (AddDate_one_day (2025, 1, 31)) = ''2025-02-01''"
proof -
  assume a: "args ''date'' = Some (VString d)" and p: "time_Parse_date d = Inr t"
    and s: "args' ''start_date'' = Some (VString d)"
    and e: "args' ''end_date'' = Some (VString (Format_date (AddDate_one_day t)))"
  let ?next = "AddDate_one_day t"
  let ?args2 = "args(''start_date'' \<mapsto> VString d, ''end_date'' \<mapsto> VString (Format_date ?next))"
  have "snd (handleGetTimeEntriesForDay w client args) = handleGetTimeEntries w client ?args2"
    using a p by (simp add: handleGetTimeEntriesForDay_valid)
  also have "\<dots> = handleGetTimeEntries w client args'"
    by (rule handleGetTimeEntries_depends_on_dates)
       (simp_all add: getOptionalString_def s e)
  finally have same: "snd (handleGetTimeEntriesForDay w client args)
                        = handleGetTimeEntries w client args'" .
  have v: "valid_date t" using p by (simp add: time_Parse_date_valid)
  have nx: "day_number ?next = day_number t + 1" and vn: "valid_date ?next"
    using AddDate_one_day_next [OF v] by simp_all
  have req: "fst ?next \<le> 9999 \<longrightarrow>
             time_Parse_date (Format_date ?next) = Inr ?next
             \<and> fst (handleGetTimeEntries w client args')
                 = fst (makeRequest w client ''GET''
                          (''/me/time_entries?end_date='' @ Format_date ?next
                           @ ''&start_date='' @ d) None)"
  proof
    assume hi: "fst ?next \<le> 9999"
    have rt: "time_Parse_date (Format_date ?next) = Inr ?next"
      using vn hi by (rule Format_Parse_roundtrip)
    have ep: "time_entries_endpoint d (Format_date ?next)
                = Inr (''/me/time_entries?end_date='' @ Format_date ?next @ ''&start_date='' @ d)"
      using p rt by (rule time_entries_endpoint_range)
    have gs: "getOptionalString args' ''start_date'' = d"
      using s by (simp add: getOptionalString_def)
    have ge: "getOptionalString args' ''end_date'' = Format_date ?next"
      using e by (simp add: getOptionalString_def)
    have "fst (handleGetTimeEntries w client args')
            = fst (makeRequest w client ''GET''
                     (''/me/time_entries?end_date='' @ Format_date ?next
                      @ ''&start_date='' @ d) None)"
      unfolding handleGetTimeEntries_def gs ge Let_def ep
      by (simp split: prod.splits sum.splits option.splits)
    then show "time_Parse_date (Format_date ?next) = Inr ?next
             \<and> fst (handleGetTimeEntries w client args')
                 = fst (makeRequest w client ''GET''
                          (''/me/time_entries?end_date='' @ Format_date ?next
                           @ ''&start_date='' @ d) None)"
      using rt by (intro conjI)
  qed
  show ?thesis
    using same nx req parse_2025_01_31 next_2025_01_31 by (intro conjI)
qed

theorem day_query_is_range_query_witness:
  "snd (handleGetTimeEntriesForDay (test_world (answer_with 200 ''[]'')) test_client
          [''date'' \<mapsto> VString ''2025-01-31''])
     = handleGetTimeEntries (test_world (answer_with 200 ''[]'')) test_client
         [''start_date'' \<mapsto> VString ''2025-01-31'', ''end_date'' \<mapsto> VString ''2025-02-01'']
   \<and> fst (handleGetTimeEntries (test_world (answer_with 200 ''[]'')) test_client
         [''start_date'' \<mapsto> VString ''2025-01-31'', ''end_date'' \<mapsto> VString ''2025-02-01''])
     = [range_request]"
proof -
  let ?w = "test_world (answer_with 200 ''[]'')"
  let ?day = "[''date'' \<mapsto> VString ''2025-01-31'']"
  let ?range = "[''start_date'' \<mapsto> VString ''2025-01-31'', ''end_date'' \<mapsto> VString ''2025-02-01'']"
  have a: "?day ''date'' = Some (VString ''2025-01-31'')" by simp
  have s: "?range ''start_date'' = Some (VString ''2025-01-31'')" by simp
  have e: "?range ''end_date'' = Some (VString (Format_date (AddDate_one_day (2025, 1, 31))))"
    unfolding next_2025_01_31 by simp
  have n: "fst (AddDate_one_day (2025, 1, 31)) \<le> 9999"
    by (simp add: AddDate_one_day_def daysIn_def)
  have m: "fst (makeRequest ?w test_client ''GET''
             (''/me/time_entries?end_date='' @ ''2025-02-01'' @ ''&start_date='' @ ''2025-01-31'') None)
           = [range_request]"
    by (simp add: test_world_makeRequest answer_with_def togglAPIBase_def range_request_def)
  have "snd (handleGetTimeEntriesForDay ?w test_client ?day) = handleGetTimeEntries ?w test_client ?range
       \<and> (fst (AddDate_one_day (2025, 1, 31)) \<le> 9999 \<longrightarrow>
             time_Parse_date (Format_date (AddDate_one_day (2025, 1, 31)))
               = Inr (AddDate_one_day (2025, 1, 31))
             \<and> fst (handleGetTimeEntries ?w test_client ?range)
                 = fst (makeRequest ?w test_client ''GET''
                          (''/me/time_entries?end_date='' @ Format_date (AddDate_one_day (2025, 1, 31))
                           @ ''&start_date='' @ ''2025-01-31'') None))"
    using day_query_is_range_query
            [where args = ?day and d = "''2025-01-31''" and t = "(2025, 1, 31)" and args' = ?range
               and w = ?w and client = test_client]
          a parse_2025_01_31 s e
    by blast
  then show ?thesis
    using n m unfolding next_2025_01_31 by simp
qed

text \<open>
  C9. After \<^verbatim>\<open>get_time_entries_for_day\<close> has run on a valid date \<^verbatim>\<open>d\<close>, the argument map
  of the caller holds \<^verbatim>\<open>d\<close> under \<^verbatim>\<open>start_date\<close> and the formatted day after \<^verbatim>\<open>d\<close>
  under \<^verbatim>\<open>end_date\<close>; every other entry is as before; and whatever the caller had
  under these two keys (any value, or none) changes neither the map after the call nor
  the requests nor the outcome.
\<close>

theorem day_query_overwrites_range_arguments:
  "args ''date'' = Some (VString d) \<Longrightarrow> time_Parse_date d = Inr t
   \<Longrightarrow> fst (handleGetTimeEntriesForDay w client args) ''start_date'' = Some (VString d)
       \<and> fst (handleGetTimeEntriesForDay w client args) ''end_date''
           = Some (VString (Format_date (AddDate_one_day t)))
       \<and> (\<forall>k. k \<noteq> ''start_date'' \<and> k \<noteq> ''end_date'' \<longrightarrow>
             fst (handleGetTimeEntriesForDay w client args) k = args k)
       \<and> (\<forall>v1 v2. handleGetTimeEntriesForDay w client
                      (args(''start_date'' := v1, ''end_date'' := v2))
                    = handleGetTimeEntriesForDay w client args)"
proof -
  assume a: "args ''date'' = Some (VString d)" and p: "time_Parse_date d = Inr t"
  have r: "handleGetTimeEntriesForDay w client args
     = (args(''start_date'' \<mapsto> VString d,
             ''end_date'' \<mapsto> VString (Format_date (AddDate_one_day t))),
        handleGetTimeEntries w client
          (args(''start_date'' \<mapsto> VString d,
                ''end_date'' \<mapsto> VString (Format_date (AddDate_one_day t)))))"
    using a p by (rule handleGetTimeEntriesForDay_valid)
  have same: "handleGetTimeEntriesForDay w client (args(''start_date'' := v1, ''end_date'' := v2))
                = handleGetTimeEntriesForDay w client args" for v1 v2
  proof -
    let ?b = "args(''start_date'' := v1, ''end_date'' := v2)"
    have b: "?b ''date'' = Some (VString d)" using a by simp
    have u: "?b(''start_date'' \<mapsto> VString d,
                ''end_date'' \<mapsto> VString (Format_date (AddDate_one_day t)))
             = args(''start_date'' \<mapsto> VString d,
                    ''end_date'' \<mapsto> VString (Format_date (AddDate_one_day t)))"
      by (rule ext) simp
    have "handleGetTimeEntriesForDay w client ?b
     = (?b(''start_date'' \<mapsto> VString d,
             ''end_date'' \<mapsto> VString (Format_date (AddDate_one_day t))),
        handleGetTimeEntries w client
          (?b(''start_date'' \<mapsto> VString d,
                ''end_date'' \<mapsto> VString (Format_date (AddDate_one_day t)))))"
      using b p by (rule handleGetTimeEntriesForDay_valid [where args = ?b])
    then show ?thesis
      unfolding r u .
  qed
  show ?thesis
    using same unfolding r by simp
qed

theorem day_query_overwrites_range_arguments_witness:
  "fst (handleGetTimeEntriesForDay (test_world (answer_with 200 ''[]'')) test_client
          [''date'' \<mapsto> VString ''2025-01-15'', ''start_date'' \<mapsto> VString ''1999-12-31''])
     ''start_date'' = Some (VString ''2025-01-15'')
   \<and> fst (handleGetTimeEntriesForDay (test_world (answer_with 200 ''[]'')) test_client
          [''date'' \<mapsto> VString ''2025-01-15'', ''start_date'' \<mapsto> VString ''1999-12-31''])
     ''end_date'' = Some (VString ''2025-01-16'')
   \<and> fst (handleGetTimeEntriesForDay (test_world (answer_with 200 ''[]'')) test_client
          [''date'' \<mapsto> VString ''2025-01-15'', ''start_date'' \<mapsto> VString ''1999-12-31''])
     ''date'' = Some (VString ''2025-01-15'')"
proof -
  let ?w = "test_world (answer_with 200 ''[]'')"
  let ?args = "[''date'' \<mapsto> VString ''2025-01-15'', ''start_date'' \<mapsto> VString ''1999-12-31'']"
  have a: "?args ''date'' = Some (VString ''2025-01-15'')" by simp
  have k: "''date'' \<noteq> ''start_date'' \<and> ''date'' \<noteq> ''end_date''" by simp
  have "fst (handleGetTimeEntriesForDay ?w test_client ?args) ''start_date''
          = Some (VString ''2025-01-15'')
       \<and> fst (handleGetTimeEntriesForDay ?w test_client ?args) ''end_date''
           = Some (VString (Format_date (AddDate_one_day (2025, 1, 15))))
       \<and> (\<forall>k. k \<noteq> ''start_date'' \<and> k \<noteq> ''end_date'' \<longrightarrow>
             fst (handleGetTimeEntriesForDay ?w test_client ?args) k = ?args k)"
    using day_query_overwrites_range_arguments
            [where args = ?args and d = "''2025-01-15''" and t = "(2025, 1, 15)"
               and w = ?w and client = test_client]
          a parse_2025_01_15
    by blast
  then show ?thesis
    using k a unfolding next_2025_01_15 by metis
qed

text \<open>
  C6. \<^verbatim>\<open>get_time_entries\<close> returns a hard error, with no request handed to the
  transport, whenever \<^verbatim>\<open>start_date\<close> or \<^verbatim>\<open>end_date\<close> is a non-empty string that
  \<^verbatim>\<open>time.Parse\<close> rejects. When both hold the same valid date and the list decoded from
  the answer is empty, the text of the result ends with the same-date warning, whose
  suggested end date is the formatted next calendar day; for 2025-01-15 that is
  2025-01-16.
\<close>

theorem time_entries_date_check_and_warning:
  "((\<exists>s. args ''start_date'' = Some (VString s) \<and> s \<noteq> [] \<and> (\<exists>e. time_Parse_date s = Inl e))
    \<or> (\<exists>s. args ''end_date'' = Some (VString s) \<and> s \<noteq> [] \<and> (\<exists>e. time_Parse_date s = Inl e))
    \<longrightarrow> (\<exists>err. handleGetTimeEntries w client args = ([], Inl err)))
   \<and> (args ''start_date'' = Some (VString d) \<and> args ''end_date'' = Some (VString d)
      \<and> time_Parse_date d = Inr t
      \<and> makeRequest w client ''GET''
            (''/me/time_entries?end_date='' @ d @ ''&start_date='' @ d) None = (sent, Inr resp)
      \<and> decodeResponse (Unmarshal_TimeEntries w) [] resp = ([], None)
      \<longrightarrow> handleGetTimeEntries w client args
           = (sent, Inr \<lparr>Text =
                ''Found 0 time entries:\<newline>''
                @ ''\<newline>No time entries found. This could be because:\<newline>''
                @ ''- No time entries exist in the specified date range\<newline>''
                @ ''- You need to specify a date range (start_date, end_date)\<newline>''
                @ ''- The default query only returns recent entries\<newline>''
                @ ''\<newline>'' @ [CHR 0xE2, CHR 0x9A, CHR 0xA0, CHR 0xEF, CHR 0xB8, CHR 0x8F]
                @ ''  LIKELY ISSUE: You used the same date for start_date and end_date!\<newline>''
                @ ''To get entries for '' @ d @ '', use:\<newline>''
                @ ''  start_date: '' @ d @ ''\<newline>''
                @ ''  end_date: '' @ Format_date (AddDate_one_day t) @ ''\<newline>''
                @ ''OR use the 'get_time_entries_for_day' tool with date: '' @ d @ ''\<newline>'',
              IsError = False\<rparr>)
         \<and> day_number (AddDate_one_day t) = day_number t + 1)
   \<and> time_Parse_date ''2025-01-15'' = Inr (2025, 1, 15)
   \<and> Format_date (AddDate_one_day (2025, 1, 15)) = ''2025-01-16''"
proof (intro conjI impI)
  assume "(\<exists>s. args ''start_date'' = Some (VString s) \<and> s \<noteq> [] \<and> (\<exists>e. time_Parse_date s = Inl e))
    \<or> (\<exists>s. args ''end_date'' = Some (VString s) \<and> s \<noteq> [] \<and> (\<exists>e. time_Parse_date s = Inl e))"
  then show "\<exists>err. handleGetTimeEntries w client args = ([], Inl err)"
    by (rule handleGetTimeEntries_bad_date)
next
  assume h: "args ''start_date'' = Some (VString d) \<and> args ''end_date'' = Some (VString d)
      \<and> time_Parse_date d = Inr t
      \<and> makeRequest w client ''GET''
            (''/me/time_entries?end_date='' @ d @ ''&start_date='' @ d) None = (sent, Inr resp)
      \<and> decodeResponse (Unmarshal_TimeEntries w) [] resp = ([], None)"
  then have s: "args ''start_date'' = Some (VString d)" and e: "args ''end_date'' = Some (VString d)"
    and p: "time_Parse_date d = Inr t"
    and m: "makeRequest w client ''GET''
            (''/me/time_entries?end_date='' @ d @ ''&start_date='' @ d) None = (sent, Inr resp)"
    and dec: "decodeResponse (Unmarshal_TimeEntries w) [] resp = ([], None)"
    by blast+
  show "handleGetTimeEntries w client args
           = (sent, Inr \<lparr>Text =
                ''Found 0 time entries:\<newline>''
                @ ''\<newline>No time entries found. This could be because:\<newline>''
                @ ''- No time entries exist in the specified date range\<newline>''
                @ ''- You need to specify a date range (start_date, end_date)\<newline>''
                @ ''- The default query only returns recent entries\<newline>''
                @ ''\<newline>'' @ [CHR 0xE2, CHR 0x9A, CHR 0xA0, CHR 0xEF, CHR 0xB8, CHR 0x8F]
                @ ''  LIKELY ISSUE: You used the same date for start_date and end_date!\<newline>''
                @ ''To get entries for '' @ d @ '', use:\<newline>''
                @ ''  start_date: '' @ d @ ''\<newline>''
                @ ''  end_date: '' @ Format_date (AddDate_one_day t) @ ''\<newline>''
                @ ''OR use the 'get_time_entries_for_day' tool with date: '' @ d @ ''\<newline>'',
              IsError = False\<rparr>)"
    using s e p m dec by (rule handleGetTimeEntries_same_date)
  have "valid_date t" using p by (simp add: time_Parse_date_valid)
  then show "day_number (AddDate_one_day t) = day_number t + 1"
    by (simp add: AddDate_one_day_next)
next
  show "time_Parse_date ''2025-01-15'' = Inr (2025, 1, 15)" by (rule parse_2025_01_15)
next
  show "Format_date (AddDate_one_day (2025, 1, 15)) = ''2025-01-16''" by (rule next_2025_01_15)
qed

theorem time_entries_date_check_and_warning_witness:
  "(\<exists>err. handleGetTimeEntries (test_world (answer_with 200 ''[]'')) test_client
            [''start_date'' \<mapsto> VString ''15-01-2025''] = ([], Inl err))
   \<and> handleGetTimeEntries (test_world (answer_with 200 ''[]'')) test_client
        [''start_date'' \<mapsto> VString ''2025-01-15'', ''end_date'' \<mapsto> VString ''2025-01-15'']
      = ([same_day_request], Inr \<lparr>Text =
                ''Found 0 time entries:\<newline>''
                @ ''\<newline>No time entries found. This could be because:\<newline>''
                @ ''- No time entries exist in the specified date range\<newline>''
                @ ''- You need to specify a date range (start_date, end_date)\<newline>''
                @ ''- The default query only returns recent entries\<newline>''
                @ ''\<newline>'' @ [CHR 0xE2, CHR 0x9A, CHR 0xA0, CHR 0xEF, CHR 0xB8, CHR 0x8F]
                @ ''  LIKELY ISSUE: You used the same date for start_date and end_date!\<newline>''
                @ ''To get entries for 2025-01-15, use:\<newline>''
                @ ''  start_date: 2025-01-15\<newline>''
                @ ''  end_date: 2025-01-16\<newline>''
                @ ''OR use the 'get_time_entries_for_day' tool with date: 2025-01-15\<newline>'',
              IsError = False\<rparr>)"
proof -
  let ?w = "test_world (answer_with 200 ''[]'')"
  let ?bad = "[''start_date'' \<mapsto> VString ''15-01-2025'']"
  let ?same = "[''start_date'' \<mapsto> VString ''2025-01-15'', ''end_date'' \<mapsto> VString ''2025-01-15'']"
  let ?resp = "\<lparr>StatusCode = 200, Body = Readable ''[]''\<rparr>"
  have b: "(\<exists>s. ?bad ''start_date'' = Some (VString s) \<and> s \<noteq> [] \<and> (\<exists>e. time_Parse_date s = Inl e))
    \<or> (\<exists>s. ?bad ''end_date'' = Some (VString s) \<and> s \<noteq> [] \<and> (\<exists>e. time_Parse_date s = Inl e))"
    using parse_15_01_2025 by simp
  have first: "\<exists>err. handleGetTimeEntries ?w test_client ?bad = ([], Inl err)"
    using time_entries_date_check_and_warning [where args = ?bad and w = ?w and client = test_client] b
    by blast
  have m: "makeRequest ?w test_client ''GET''
            (''/me/time_entries?end_date='' @ ''2025-01-15'' @ ''&start_date='' @ ''2025-01-15'') None
            = ([same_day_request], Inr ?resp)"
    by (simp add: test_world_makeRequest answer_with_def togglAPIBase_def same_day_request_def)
  have dec: "decodeResponse (Unmarshal_TimeEntries ?w) [] ?resp = ([], None)"
    by (simp add: decodeResponse_def test_world_def)
  have h: "?same ''start_date'' = Some (VString ''2025-01-15'')
      \<and> ?same ''end_date'' = Some (VString ''2025-01-15'')
      \<and> time_Parse_date ''2025-01-15'' = Inr (2025, 1, 15)
      \<and> makeRequest ?w test_client ''GET''
            (''/me/time_entries?end_date='' @ ''2025-01-15'' @ ''&start_date='' @ ''2025-01-15'') None
            = ([same_day_request], Inr ?resp)
      \<and> decodeResponse (Unmarshal_TimeEntries ?w) [] ?resp = ([], None)"
    using m dec parse_2025_01_15 by simp
  have second: "handleGetTimeEntries ?w test_client ?same
           = ([same_day_request], Inr \<lparr>Text =
                ''Found 0 time entries:\<newline>''
                @ ''\<newline>No time entries found. This could be because:\<newline>''
                @ ''- No time entries exist in the specified date range\<newline>''
                @ ''- You need to specify a date range (start_date, end_date)\<newline>''
                @ ''- The default query only returns recent entries\<newline>''
                @ ''\<newline>'' @ [CHR 0xE2, CHR 0x9A, CHR 0xA0, CHR 0xEF, CHR 0xB8, CHR 0x8F]
                @ ''  LIKELY ISSUE: You used the same date for start_date and end_date!\<newline>''
                @ ''To get entries for '' @ ''2025-01-15'' @ '', use:\<newline>''
                @ ''  start_date: '' @ ''2025-01-15'' @ ''\<newline>''
                @ ''  end_date: '' @ Format_date (AddDate_one_day (2025, 1, 15)) @ ''\<newline>''
                @ ''OR use the 'get_time_entries_for_day' tool with date: '' @ ''2025-01-15'' @ ''\<newline>'',
              IsError = False\<rparr>)"
    using time_entries_date_check_and_warning
            [where args = ?same and w = ?w and client = test_client and d = "''2025-01-15''"
               and t = "(2025, 1, 15)" and sent = "[same_day_request]" and resp = ?resp] h
    by blast
  show ?thesis
    using first second unfolding next_2025_01_15 by simp
qed

end
